theory Spec2Isabelle
  imports Main "HOL-Library.Sublist" "HOL-Library.Word"
begin

chapter \<open>The DID orchestration service and the EIP-4337 wallet contracts\<close>

text \<open>
  The repository has two independent parts: a NestJS service (\<open>did.service.ts\<close>) that
  drives an on-chain identity registry through the \<open>ethers\<close> library, and two Solidity
  contracts (\<open>SimpleAccount\<close>, \<open>SimpleAccountFactory\<close>). Both are embedded below.
  Strings of the service are lists of code units, restricted to the 8-bit range of
  \<^typ>\<open>char\<close>; addresses, hashes and keys are the hexadecimal strings \<open>ethers\<close> hands out.
\<close>

section \<open>Part I: \<open>did.service.ts\<close>\<close>

subsection \<open>String operations of the host language\<close>

text \<open>
  \<open>s.split(':')\<close>: the segments between the separators. The result is never empty
  (\<open>''.split(':')\<close> is \<open>['']\<close>), so \<open>parts[parts.length - 1]\<close> always exists.
\<close>

fun split :: "char \<Rightarrow> string \<Rightarrow> string list" where
  "split sep [] = [[]]"
| "split sep (c # cs) =
     (if c = sep then [] # split sep cs
      else (case split sep cs of
              [] \<Rightarrow> [[c]]
            | p # ps \<Rightarrow> (c # p) # ps))"

text \<open>\<open>s.startsWith(p)\<close>.\<close>

definition startsWith :: "string \<Rightarrow> string \<Rightarrow> bool" where
  "startsWith s p = prefix p s"

text \<open>
  The character class of \<open>/[^a-fA-F0-9x]/g\<close>: a code unit survives the replacement when
  it is a hexadecimal digit of either case or the letter \<open>x\<close>.
\<close>

definition keptChar :: "char \<Rightarrow> bool" where
  "keptChar c = (c \<in> set ''abcdefABCDEF0123456789x'')"

text \<open>\<open>s.replace(/[^a-fA-F0-9x]/g, '')\<close>.\<close>

definition stripNonHex :: "string \<Rightarrow> string" where
  "stripNonHex s = filter keptChar s"

text \<open>
  \<open>s.toLowerCase()\<close> on the strings the service applies it to: addresses as \<open>ethers\<close>
  returns them, which are ASCII. Only \<open>A\<close> to \<open>Z\<close> change.
\<close>

definition lowerChar :: "char \<Rightarrow> char" where
  "lowerChar c =
     (let n = (of_char c :: nat)
      in if 65 \<le> n \<and> n \<le> 90 then char_of (n + 32) else c)"

definition toLowerCase :: "string \<Rightarrow> string" where
  "toLowerCase s = map lowerChar s"

subsection \<open>Errors\<close>

text \<open>
  Every \<open>throw new Error(...)\<close> of the service is a constructor; its arguments are the
  values the template string interpolates, in the order they appear in the message.
  \<open>Thrown\<close> is an error raised inside \<open>ethers\<close> or the JSON-RPC provider, with its
  message. The four last constructors are the \<open>catch\<close> blocks that re-throw with a
  prefix in front of the message of the error they caught.
\<close>

datatype error =
    Thrown string
  | InvalidDidAddress string
  | UnsupportedDid string
  | NotOwner string string string
  | AttributeNameTooLong string
  | RegisterDidFailed error
  | AddAttributeFailed error
  | RemoveAttributeFailed error
  | DeleteDidFailed error

subsection \<open>DID to address\<close>

text \<open>
  The block that \<open>addAttribute\<close>, \<open>removeAttribute\<close> and \<open>deleteDid\<close> each contain,
  character for character the same:
  \<^verbatim>\<open>
  let identity: string;
  if (did.startsWith('did:ethr:')) {
    const parts = did.split(':');
    identity = parts[parts.length - 1].replace(/[^a-fA-F0-9x]/g, '');
    if (!ethers.utils.isAddress(identity)) { throw new Error(`...: ${identity}`); }
  } else { throw new Error(`...: ${did}`); }
  \<close>
  \<open>ethers.utils.isAddress\<close> is library code; it is the parameter \<open>isAddress\<close>.
\<close>

definition extractIdentity :: "(string \<Rightarrow> bool) \<Rightarrow> string \<Rightarrow> error + string" where
  "extractIdentity isAddress did =
     (if startsWith did ''did:ethr:'' then
        (let parts = split CHR '':'' did;
             identity = stripNonHex (last parts)
         in if \<not> isAddress identity then Inl (InvalidDidAddress identity)
            else Inr identity)
      else Inl (UnsupportedDid did))"

subsection \<open>The address test of \<open>ethers\<close> version 5\<close>

text \<open>
  \<open>ethers.utils.isAddress(a)\<close> is true when \<open>getAddress(a)\<close> does not throw.
  \<open>getAddress\<close> accepts a string matching \<open>/^(0x)?[0-9a-fA-F]{40}$/\<close> unless it mixes
  upper and lower case hexadecimal letters (\<open>/([A-F].*[a-f])|([a-f].*[A-F])/\<close>) and
  differs from its EIP-55 checksummed spelling; otherwise it accepts a string matching
  \<open>/^XE[0-9]{2}[0-9A-Za-z]{30,31}$/\<close> whose ICAP checksum and range are right.
  The checksummed spelling needs keccak-256 and the ICAP test needs base-36 arithmetic:
  they are the parameters \<open>getChecksumAddress\<close> and \<open>icapValid\<close>.
\<close>

definition hexDigit :: "char \<Rightarrow> bool" where
  "hexDigit c = (c \<in> set ''0123456789abcdefABCDEF'')"

definition hexAddressForm :: "string \<Rightarrow> bool" where
  "hexAddressForm a =
     (let body = (if take 2 a = ''0x'' then drop 2 a else a)
      in length body = 40 \<and> list_all hexDigit body)"

definition mixedCase :: "string \<Rightarrow> bool" where
  "mixedCase a =
     (list_ex (\<lambda>c. c \<in> set ''ABCDEF'') a \<and> list_ex (\<lambda>c. c \<in> set ''abcdef'') a)"

definition icapForm :: "string \<Rightarrow> bool" where
  "icapForm a =
     (take 2 a = ''XE''
      \<and> (length a = 34 \<or> length a = 35)
      \<and> list_all (\<lambda>c. c \<in> set ''0123456789'') (take 2 (drop 2 a))
      \<and> list_all (\<lambda>c. c \<in> set
           ''0123456789ABCDEFGHIJKLMNOPQRSTUVWXYZabcdefghijklmnopqrstuvwxyz'') (drop 4 a))"

definition ethersIsAddress :: "(string \<Rightarrow> string) \<Rightarrow> (string \<Rightarrow> bool) \<Rightarrow> string \<Rightarrow> bool" where
  "ethersIsAddress getChecksumAddress icapValid a =
     (if hexAddressForm a then
        (let a' = (if take 2 a \<noteq> ''0x'' then ''0x'' @ a else a)
         in \<not> (mixedCase a' \<and> getChecksumAddress a' \<noteq> a'))
      else if icapForm a then icapValid a
      else False)"

subsection \<open>The string encoders of \<open>ethers\<close> version 5\<close>

text \<open>
  \<open>ethers.utils.toUtf8Bytes(str)\<close> on a string whose code units are all below 256: a
  unit below 128 is one byte, any other unit is two bytes. Such a string has no
  surrogates, so the function does not throw on it.
\<close>

definition utf8Unit :: "char \<Rightarrow> string" where
  "utf8Unit c =
     (let n = (of_char c :: nat)
      in if n < 128 then [c] else [char_of (192 + n div 64), char_of (128 + n mod 64)])"

definition ethersToUtf8Bytes :: "string \<Rightarrow> string" where
  "ethersToUtf8Bytes str = concat (map utf8Unit str)"

text \<open>\<open>ethers.utils.hexlify\<close> on bytes: \<open>0x\<close> and two lower-case digits for each byte.\<close>

definition hexlify :: "string \<Rightarrow> string" where
  "hexlify bs =
     ''0x'' @ concat (map (\<lambda>b. [''0123456789abcdef'' ! (of_char b div 16),
                                ''0123456789abcdef'' ! (of_char b mod 16)]) bs)"

text \<open>
  \<open>ethers.utils.formatBytes32String(str)\<close>:
  \<^verbatim>\<open>
  const bytes = toUtf8Bytes(text);
  if (bytes.length > 31) { throw new Error("bytes32 string must be less than 32 bytes"); }
  return hexlify(concat([bytes, HashZero]).slice(0, 32));
  \<close>
  The limit is on the bytes of the UTF-8 encoding, not on the code units of the string.
\<close>

definition ethersFormatBytes32String :: "string \<Rightarrow> string + string" where
  "ethersFormatBytes32String str =
     (let bs = ethersToUtf8Bytes str
      in if length bs > 31 then Inl ''bytes32 string must be less than 32 bytes''
         else Inr (hexlify (take 32 (bs @ replicate 32 (CHR 0x00)))))"

subsection \<open>The registry contract, the provider and the library\<close>

text \<open>
  The service reaches the registry through \<open>new ethers.Contract(registryAddress,
  registryAbi, adminWallet)\<close>. The four state-changing functions of \<open>registryAbi\<close>
  that the service calls are the constructors of \<open>registryCall\<close>, with the arguments in
  the order of the ABI.
\<close>

type_synonym address = string
type_synonym bytes = string

datatype registryCall =
    changeOwner address address
  | changeOwnerSigned address nat string string address
  | setAttribute address string bytes nat
  | revokeAttribute address string bytes

text \<open>
  A transaction as the service submits it: the signer of the contract object (always the
  admin wallet), the call, and the \<open>gasLimit\<close> override when the call site gives one.
\<close>

record transaction =
  signer :: address
  invoked :: registryCall
  gasLimit :: "nat option"

text \<open>The values handed to \<open>ethers.utils.solidityKeccak256\<close>, each tagged with its type.\<close>

datatype solidityValue =
    Bytes1V string
  | AddressV address
  | Uint256V nat
  | StringV string

text \<open>An \<open>ethers.Wallet\<close>, as far as the service reads it.\<close>

record wallet =
  address :: address
  publicKey :: string
  privateKey :: string

text \<open>
  Everything outside the repository that the service depends on, for a chain whose
  states have type \<open>'w\<close>: the configuration read by the constructor, the pure functions
  of \<open>ethers.utils\<close> (\<open>Inl\<close> is the message of the error they throw), and the registry
  seen through the JSON-RPC provider. A read (\<open>identityOwner\<close>, \<open>nonce\<close>) returns a
  result or throws. \<open>send\<close> is the awaited contract method: it throws or returns the
  pending transaction, named by its hash. \<open>wait\<close> is \<open>tx.wait()\<close>: it throws (the
  transaction was mined and reverted) or returns the \<open>transactionHash\<close> of the receipt.
  Both change the state of the chain.
\<close>

record 'w ethers =
  registryAddress :: address
  adminWallet :: wallet
  isAddress :: "string \<Rightarrow> bool"
  formatBytes32String :: "string \<Rightarrow> string + string"
  toUtf8Bytes :: "string \<Rightarrow> string + bytes"
  solidityKeccak256 :: "solidityValue list \<Rightarrow> string + string"
  signDigest :: "string \<Rightarrow> string \<Rightarrow> string + (nat \<times> string \<times> string)"
  identityOwner :: "'w \<Rightarrow> address \<Rightarrow> string + address"
  registryNonce :: "'w \<Rightarrow> address \<Rightarrow> string + nat"
  send :: "'w \<Rightarrow> transaction \<Rightarrow> (string + string) \<times> 'w"
  wait :: "'w \<Rightarrow> string \<Rightarrow> (string + string) \<times> 'w"

text \<open>
  The state a call of the service runs in: the chain, and the transactions the service
  has handed to \<open>send\<close> so far, oldest first. The list is not in the source; it records
  what was submitted so that theorems can speak about it.
\<close>

record 'w state =
  world :: 'w
  submitted :: "transaction list"

text \<open>\<open>ethers.constants.AddressZero\<close>.\<close>

definition AddressZero :: address where
  "AddressZero = ''0x0000000000000000000000000000000000000000''"

text \<open>\<open>await registry.f(...)\<close> for a state-changing \<open>f\<close>, and \<open>await tx.wait()\<close>.\<close>

definition sendTransaction ::
  "'w ethers \<Rightarrow> transaction \<Rightarrow> 'w state \<Rightarrow> (error + string) \<times> 'w state" where
  "sendTransaction E t s =
     (case send E (world s) t of
        (r, w) \<Rightarrow> (map_sum Thrown id r, \<lparr>world = w, submitted = submitted s @ [t]\<rparr>))"

definition waitMined ::
  "'w ethers \<Rightarrow> string \<Rightarrow> 'w state \<Rightarrow> (error + string) \<times> 'w state" where
  "waitMined E tx s =
     (case wait E (world s) tx of
        (r, w) \<Rightarrow> (map_sum Thrown id r, s\<lparr>world := w\<rparr>))"

subsection \<open>\<open>ensureAdminRegistered\<close>\<close>

definition ensureAdminRegistered :: "'w ethers \<Rightarrow> 'w state \<Rightarrow> (error + unit) \<times> 'w state" where
  "ensureAdminRegistered E s =
     (case identityOwner E (world s) (address (adminWallet E)) of
        Inl m \<Rightarrow> (Inl (Thrown m), s)
      | Inr currentOwner \<Rightarrow>
          if currentOwner = AddressZero then
            (case sendTransaction E
                    \<lparr>signer = address (adminWallet E),
                     invoked = changeOwner (address (adminWallet E)) (address (adminWallet E)),
                     gasLimit = None\<rparr> s of
               (Inl e, s1) \<Rightarrow> (Inl e, s1)
             | (Inr tx, s1) \<Rightarrow>
                 (case waitMined E tx s1 of
                    (Inl e, s2) \<Rightarrow> (Inl e, s2)
                  | (Inr receipt, s2) \<Rightarrow> (Inr (), s2)))
          else (Inr (), s))"

subsection \<open>\<open>registerDid\<close>\<close>

text \<open>
  The objects the service returns. Their fields carry a prime, so that they do not
  capture the parameter \<open>did\<close> of the source, the fields of \<open>wallet\<close> or the keyword
  \<open>note\<close>. \<open>registerDid\<close> returns \<open>{ did, address, publicKey, privateKey,
  transactionHash, note }\<close>, the three other functions return \<open>{ success,
  transactionHash, did }\<close>; the two fields they share come first. The \<open>note\<close> of a
  registration is a fixed text.
\<close>

datatype noteText = RegistrationComplete

record didTransaction =
  did' :: string
  transactionHash' :: string

record registration = didTransaction +
  address' :: address
  publicKey' :: string
  privateKey' :: string
  note' :: noteText

record attributeResult = didTransaction +
  success' :: bool

text \<open>
  Step 3 of \<open>registerDid\<close>, the body of the inner \<open>try\<close>: attach the public key as an
  attribute of the new identity.
\<close>

definition attachPublicKey :: "'w ethers \<Rightarrow> wallet \<Rightarrow> 'w state \<Rightarrow> (error + unit) \<times> 'w state" where
  "attachPublicKey E newWallet s =
     (case formatBytes32String E ''did/pub/secp256k1/veriKey'' of
        Inl m \<Rightarrow> (Inl (Thrown m), s)
      | Inr pubKeyName \<Rightarrow>
     (case toUtf8Bytes E (publicKey newWallet) of
        Inl m \<Rightarrow> (Inl (Thrown m), s)
      | Inr pubKeyValue \<Rightarrow>
     (case sendTransaction E
             \<lparr>signer = address (adminWallet E),
              invoked = setAttribute (address newWallet) pubKeyName pubKeyValue 31536000,
              gasLimit = Some 300000\<rparr> s of
        (Inl e, s1) \<Rightarrow> (Inl e, s1)
      | (Inr pubKeyTx, s1) \<Rightarrow>
     (case waitMined E pubKeyTx s1 of
        (Inl e, s2) \<Rightarrow> (Inl e, s2)
      | (Inr receipt, s2) \<Rightarrow> (Inr (), s2)))))"

text \<open>
  The body of the outer \<open>try\<close>. The inner \<open>catch\<close> is empty: whatever
  \<open>attachPublicKey\<close> returns is dropped and only the state it leaves is kept.
\<close>

definition registerDidTry ::
  "'w ethers \<Rightarrow> wallet \<Rightarrow> string \<Rightarrow> 'w state \<Rightarrow> (error + registration) \<times> 'w state" where
  "registerDidTry E newWallet did s =
     (case registryNonce E (world s) (address newWallet) of
        Inl m \<Rightarrow> (Inl (Thrown m), s)
      | Inr nonce \<Rightarrow>
     (case solidityKeccak256 E
             [Bytes1V ''0x19'', Bytes1V ''0x00'', AddressV (registryAddress E), Uint256V nonce,
              AddressV (address newWallet), StringV ''changeOwner'',
              AddressV (address (adminWallet E))] of
        Inl m \<Rightarrow> (Inl (Thrown m), s)
      | Inr messageHash \<Rightarrow>
     (case signDigest E (privateKey newWallet) messageHash of
        Inl m \<Rightarrow> (Inl (Thrown m), s)
      | Inr (v, r, sigS) \<Rightarrow>
     (case sendTransaction E
             \<lparr>signer = address (adminWallet E),
              invoked = changeOwnerSigned (address newWallet) v r sigS (address (adminWallet E)),
              gasLimit = None\<rparr> s of
        (Inl e, s1) \<Rightarrow> (Inl e, s1)
      | (Inr tx, s1) \<Rightarrow>
     (case waitMined E tx s1 of
        (Inl e, s2) \<Rightarrow> (Inl e, s2)
      | (Inr receipt, s2) \<Rightarrow>
          (Inr \<lparr>did' = did,
                transactionHash' = receipt,
                address' = address newWallet,
                publicKey' = publicKey newWallet,
                privateKey' = privateKey newWallet,
                note' = RegistrationComplete\<rparr>,
           snd (attachPublicKey E newWallet s2)))))))"

text \<open>
  \<open>registerDid\<close>. \<open>newWallet\<close> is the result of \<open>ethers.Wallet.createRandom()\<close>. The
  bootstrap check runs before the \<open>try\<close>, so its error is not wrapped.
\<close>

definition registerDid ::
  "'w ethers \<Rightarrow> wallet \<Rightarrow> 'w state \<Rightarrow> (error + registration) \<times> 'w state" where
  "registerDid E newWallet s =
     (case ensureAdminRegistered E s of
        (Inl e, s1) \<Rightarrow> (Inl e, s1)
      | (Inr u, s1) \<Rightarrow>
          (let did = ''did:ethr:sepolia:'' @ address newWallet
           in case registerDidTry E newWallet did s1 of
                (Inl e, s2) \<Rightarrow> (Inl (RegisterDidFailed e), s2)
              | (Inr result, s2) \<Rightarrow> (Inr result, s2)))"

subsection \<open>\<open>addAttribute\<close>, \<open>removeAttribute\<close>, \<open>deleteDid\<close>\<close>

definition addAttributeTry ::
  "'w ethers \<Rightarrow> string \<Rightarrow> string \<Rightarrow> string \<Rightarrow> 'w state \<Rightarrow> (error + attributeResult) \<times> 'w state" where
  "addAttributeTry E did attributeName attributeValue s =
     (case extractIdentity (isAddress E) did of
        Inl e \<Rightarrow> (Inl e, s)
      | Inr identity \<Rightarrow>
     (case identityOwner E (world s) identity of
        Inl m \<Rightarrow> (Inl (Thrown m), s)
      | Inr currentOwner \<Rightarrow>
          if toLowerCase currentOwner \<noteq> toLowerCase (address (adminWallet E)) then
            (Inl (NotOwner (address (adminWallet E)) identity currentOwner), s)
          else if length attributeName > 31 then
            (Inl (AttributeNameTooLong attributeName), s)
          else
     (case formatBytes32String E attributeName of
        Inl m \<Rightarrow> (Inl (Thrown m), s)
      | Inr name \<Rightarrow>
     (case toUtf8Bytes E attributeValue of
        Inl m \<Rightarrow> (Inl (Thrown m), s)
      | Inr val \<Rightarrow>
     (case sendTransaction E
             \<lparr>signer = address (adminWallet E),
              invoked = setAttribute identity name val 31536000,
              gasLimit = Some 300000\<rparr> s of
        (Inl e, s1) \<Rightarrow> (Inl e, s1)
      | (Inr tx, s1) \<Rightarrow>
     (case waitMined E tx s1 of
        (Inl e, s2) \<Rightarrow> (Inl e, s2)
      | (Inr receipt, s2) \<Rightarrow>
          (Inr \<lparr>did' = did, transactionHash' = receipt, success' = True\<rparr>, s2)))))))"

definition addAttribute ::
  "'w ethers \<Rightarrow> string \<Rightarrow> string \<Rightarrow> string \<Rightarrow> 'w state \<Rightarrow> (error + attributeResult) \<times> 'w state" where
  "addAttribute E did attributeName attributeValue s =
     (case ensureAdminRegistered E s of
        (Inl e, s1) \<Rightarrow> (Inl e, s1)
      | (Inr u, s1) \<Rightarrow>
          (case addAttributeTry E did attributeName attributeValue s1 of
             (Inl e, s2) \<Rightarrow> (Inl (AddAttributeFailed e), s2)
           | (Inr result, s2) \<Rightarrow> (Inr result, s2)))"



definition deleteDidTry ::
  "'w ethers \<Rightarrow> string \<Rightarrow> 'w state \<Rightarrow> (error + attributeResult) \<times> 'w state" where
  "deleteDidTry E did s =
     (case extractIdentity (isAddress E) did of
        Inl e \<Rightarrow> (Inl e, s)
      | Inr identity \<Rightarrow>
     (case sendTransaction E
             \<lparr>signer = address (adminWallet E),
              invoked = changeOwner identity AddressZero,
              gasLimit = Some 200000\<rparr> s of
        (Inl e, s1) \<Rightarrow> (Inl e, s1)
      | (Inr tx, s1) \<Rightarrow>
     (case waitMined E tx s1 of
        (Inl e, s2) \<Rightarrow> (Inl e, s2)
      | (Inr receipt, s2) \<Rightarrow>
          (Inr \<lparr>did' = did, transactionHash' = receipt, success' = True\<rparr>, s2))))"

definition deleteDid ::
  "'w ethers \<Rightarrow> string \<Rightarrow> 'w state \<Rightarrow> (error + attributeResult) \<times> 'w state" where
  "deleteDid E did s =
     (case ensureAdminRegistered E s of
        (Inl e, s1) \<Rightarrow> (Inl e, s1)
      | (Inr u, s1) \<Rightarrow>
          (case deleteDidTry E did s1 of
             (Inl e, s2) \<Rightarrow> (Inl (DeleteDidFailed e), s2)
           | (Inr result, s2) \<Rightarrow> (Inr result, s2)))"

section \<open>Part II: \<open>SimpleAccount.sol\<close> and \<open>SimpleAccountFactory.sol\<close>\<close>

subsection \<open>Values, reverts and the environment of a call\<close>

type_synonym evmAddress = "160 word"
type_synonym uint256 = "256 word"
type_synonym bytes32 = "256 word"
type_synonym evmBytes = "8 word list"

text \<open>
  What a reverting call carries: the reason string of a failed \<open>require\<close>, the code of a
  \<open>Panic\<close> (\<open>0x11\<close> is arithmetic overflow, which Solidity 0.8 checks), the custom error
  of a library, or the return data of a failed inner call handed on by \<open>_call\<close>.
\<close>

datatype revertData =
    ErrorString string
  | Panic nat
  | CustomError string
  | Bubbled evmBytes

text \<open>An external call \<open>target.call{value: amount}(payload)\<close>.\<close>

record externalCall =
  target :: evmAddress
  amount :: uint256
  payload :: evmBytes

text \<open>\<open>PackedUserOperation\<close> of the account-abstraction interfaces, version 0.7.\<close>

record PackedUserOperation =
  sender :: evmAddress
  nonce :: uint256
  initCode :: evmBytes
  callData :: evmBytes
  accountGasLimits :: bytes32
  preVerificationGas :: uint256
  gasFees :: bytes32
  paymasterAndData :: evmBytes
  signature :: evmBytes

text \<open>
  The storage of a \<open>SimpleAccount\<close> and its immutable. A leading underscore of the source
  is a trailing prime here: \<open>_entryPoint\<close> is \<open>entryPoint'\<close>, \<open>_nonce\<close> is \<open>nonce'\<close>.
\<close>

record SimpleAccount =
  owner :: evmAddress
  entryPoint' :: evmAddress
  nonce' :: uint256

text \<open>
  What the contracts take from outside: the two OpenZeppelin functions used on the
  signature (\<open>recover\<close> reverts on a malformed signature), the result \<open>(success,
  returndata)\<close> of an external call, the CREATE2 address of a deployment by \<open>deployer\<close>
  with \<open>salt\<close> and the hash of the creation code (OpenZeppelin's
  \<open>Create2.computeAddress\<close> evaluates the formula the EVM deploys by), the hash
  \<open>keccak256(abi.encodePacked(type(ERC1967Proxy).creationCode, abi.encode(implementation,
  abi.encodeCall(SimpleAccount.initialize, (owner)))))\<close>, and the runtime code of a
  deployed \<open>ERC1967Proxy\<close>. An external call is taken not to call back into the
  account.
\<close>

record evm =
  toEthSignedMessageHash :: "bytes32 \<Rightarrow> bytes32"
  recover :: "bytes32 \<Rightarrow> evmBytes \<Rightarrow> revertData + evmAddress"
  extcall :: "evmAddress \<Rightarrow> uint256 \<Rightarrow> evmBytes \<Rightarrow> bool \<times> evmBytes"
  computeAddress :: "evmAddress \<Rightarrow> bytes32 \<Rightarrow> bytes32 \<Rightarrow> evmAddress"
  proxyCreationHash :: "evmAddress \<Rightarrow> evmAddress \<Rightarrow> bytes32"
  proxyRuntimeCode :: evmBytes

text \<open>
  The result of a call of the account: it reverted, and the storage is as before, or it
  returned a result and left new storage. Next to it stands the list of external calls
  the execution made, in order.
\<close>

datatype 'a outcome = Reverted revertData | Returned 'a SimpleAccount

text \<open>The storage after a call that started in \<open>acct\<close>.\<close>

definition storageAfter :: "SimpleAccount \<Rightarrow> 'a outcome \<Rightarrow> SimpleAccount" where
  "storageAfter acct r = (case r of Reverted d \<Rightarrow> acct | Returned v acct' \<Rightarrow> acct')"

subsection \<open>\<open>SimpleAccount\<close>\<close>

definition SIG_VALIDATION_SUCCESS :: uint256 where
  "SIG_VALIDATION_SUCCESS = 0"

definition SIG_VALIDATION_FAILED :: uint256 where
  "SIG_VALIDATION_FAILED = 1"

text \<open>\<open>initialize\<close>, with the event it emits.\<close>

datatype event =
    SimpleAccountInitialized evmAddress evmAddress
  | AccountCreated evmAddress evmAddress uint256

definition initialize :: "SimpleAccount \<Rightarrow> evmAddress \<Rightarrow> revertData + (SimpleAccount \<times> event list)" where
  "initialize acct anOwner =
     (if owner acct \<noteq> 0 then Inl (ErrorString ''already initialized'')
      else (let acct' = acct\<lparr>owner := anOwner\<rparr>
            in Inr (acct', [SimpleAccountInitialized (entryPoint' acct') (owner acct')])))"

text \<open>\<open>_call\<close>: the call is made; when it fails its return data is the revert data.\<close>

definition call' :: "evm \<Rightarrow> evmAddress \<Rightarrow> uint256 \<Rightarrow> evmBytes \<Rightarrow> (revertData + unit) \<times> externalCall list" where
  "call' V tgt val dat =
     (case extcall V tgt val dat of
        (success, result) \<Rightarrow>
          (if \<not> success then Inl (Bubbled result) else Inr (),
           [\<lparr>target = tgt, amount = val, payload = dat\<rparr>]))"

definition execute ::
  "evm \<Rightarrow> SimpleAccount \<Rightarrow> evmAddress \<Rightarrow> evmAddress \<Rightarrow> uint256 \<Rightarrow> evmBytes
     \<Rightarrow> unit outcome \<times> externalCall list" where
  "execute V acct msgSender dest val func =
     (if \<not> (msgSender = entryPoint' acct \<or> msgSender = owner acct) then
        (Reverted (ErrorString ''not authorized''), [])
      else (case call' V dest val func of
              (Inl d, calls) \<Rightarrow> (Reverted d, calls)
            | (Inr u, calls) \<Rightarrow> (Returned () acct, calls)))"

definition validateSignature ::
  "evm \<Rightarrow> SimpleAccount \<Rightarrow> PackedUserOperation \<Rightarrow> bytes32 \<Rightarrow> revertData + uint256" where
  "validateSignature V acct userOp userOpHash =
     (let hash = toEthSignedMessageHash V userOpHash
      in case recover V hash (signature userOp) of
           Inl d \<Rightarrow> Inl d
         | Inr recovered \<Rightarrow>
             if owner acct \<noteq> recovered then Inr SIG_VALIDATION_FAILED
             else Inr SIG_VALIDATION_SUCCESS)"

text \<open>\<open>_validateNonce\<close>. \<open>_nonce++\<close> is checked arithmetic: at the largest value it panics.\<close>

definition validateNonce :: "SimpleAccount \<Rightarrow> uint256 \<Rightarrow> revertData + SimpleAccount" where
  "validateNonce acct n =
     (if \<not> (n = nonce' acct) then Inl (ErrorString ''invalid nonce'')
      else if nonce' acct = - 1 then Inl (Panic 0x11)
      else Inr (acct\<lparr>nonce' := nonce' acct + 1\<rparr>))"

definition payPrefund ::
  "evm \<Rightarrow> evmAddress \<Rightarrow> uint256 \<Rightarrow> (revertData + unit) \<times> externalCall list" where
  "payPrefund V msgSender missingAccountFunds =
     (if missingAccountFunds \<noteq> 0 then
        (case extcall V msgSender missingAccountFunds [] of
           (success, result) \<Rightarrow>
             (if \<not> success then Inl (ErrorString ''prefund failed'') else Inr (),
              [\<lparr>target = msgSender, amount = missingAccountFunds, payload = []\<rparr>]))
      else (Inr (), []))"

text \<open>\<open>validateUserOp\<close>, with its modifier \<open>onlyEntryPoint\<close> first.\<close>

definition validateUserOp ::
  "evm \<Rightarrow> SimpleAccount \<Rightarrow> evmAddress \<Rightarrow> PackedUserOperation \<Rightarrow> bytes32 \<Rightarrow> uint256
     \<Rightarrow> uint256 outcome \<times> externalCall list" where
  "validateUserOp V acct msgSender userOp userOpHash missingAccountFunds =
     (if \<not> (msgSender = entryPoint' acct) then
        (Reverted (ErrorString ''not from EntryPoint''), [])
      else
     (case validateSignature V acct userOp userOpHash of
        Inl d \<Rightarrow> (Reverted d, [])
      | Inr validationData \<Rightarrow>
     (case validateNonce acct (nonce userOp) of
        Inl d \<Rightarrow> (Reverted d, [])
      | Inr acct' \<Rightarrow>
     (case payPrefund V msgSender missingAccountFunds of
        (Inl d, calls) \<Rightarrow> (Reverted d, calls)
      | (Inr u, calls) \<Rightarrow> (Returned validationData acct', calls)))))"

subsection \<open>\<open>SimpleAccountFactory\<close>\<close>

text \<open>
  The chain as the factory sees it: the code at each address (\<open>addr.code\<close>, empty where
  nothing is deployed) and the storage of the accounts deployed behind a proxy.
\<close>

record chain =
  codeAt :: "evmAddress \<Rightarrow> evmBytes"
  accountAt :: "evmAddress \<Rightarrow> SimpleAccount option"

text \<open>
  The factory: its own address and its immutable \<open>accountImplementation\<close>. The
  implementation is the \<open>SimpleAccount\<close> the constructor created with \<open>_entryPoint\<close>; a
  proxy reads that immutable through its delegate calls, so it is kept here.
\<close>

record SimpleAccountFactory =
  this :: evmAddress
  accountImplementation :: evmAddress
  implementationEntryPoint :: evmAddress

definition getAddress :: "evm \<Rightarrow> SimpleAccountFactory \<Rightarrow> evmAddress \<Rightarrow> uint256 \<Rightarrow> evmAddress" where
  "getAddress V F anOwner salt =
     computeAddress V (this F) salt (proxyCreationHash V (accountImplementation F) anOwner)"

text \<open>
  \<open>new ERC1967Proxy{salt: bytes32(salt)}(address(accountImplementation),
  abi.encodeCall(SimpleAccount.initialize, (owner)))\<close>: CREATE2 fails when the address
  already holds code, and \<open>new\<close> hands on the empty revert data; otherwise the constructor of the proxy runs \<open>initialize(owner)\<close>
  on fresh storage by a delegate call, and the runtime code is stored.
\<close>

definition newERC1967Proxy ::
  "evm \<Rightarrow> SimpleAccountFactory \<Rightarrow> chain \<Rightarrow> evmAddress \<Rightarrow> uint256
     \<Rightarrow> revertData + (evmAddress \<times> chain \<times> event list)" where
  "newERC1967Proxy V F c anOwner salt =
     (let a = computeAddress V (this F) salt (proxyCreationHash V (accountImplementation F) anOwner)
      in if codeAt c a \<noteq> [] then Inl (Bubbled [])
         else (case initialize \<lparr>owner = 0, entryPoint' = implementationEntryPoint F, nonce' = 0\<rparr>
                      anOwner of
                 Inl d \<Rightarrow> Inl d
               | Inr (acct, events) \<Rightarrow>
                   Inr (a,
                        c\<lparr>codeAt := (codeAt c)(a := proxyRuntimeCode V),
                          accountAt := (accountAt c)(a \<mapsto> acct)\<rparr>,
                        events)))"

definition createAccount ::
  "evm \<Rightarrow> SimpleAccountFactory \<Rightarrow> chain \<Rightarrow> evmAddress \<Rightarrow> uint256
     \<Rightarrow> revertData + (evmAddress \<times> chain \<times> event list)" where
  "createAccount V F c anOwner salt =
     (let addr = getAddress V F anOwner salt;
          codeSize = length (codeAt c addr)
      in if codeSize > 0 then Inr (addr, c, [])
         else (case newERC1967Proxy V F c anOwner salt of
                 Inl d \<Rightarrow> Inl d
               | Inr (ret, c', events) \<Rightarrow>
                   Inr (ret, c', events @ [AccountCreated ret anOwner salt])))"

section \<open>Concrete environments\<close>

text \<open>
  The service and the contracts are defined over an arbitrary library, provider and
  chain. To evaluate them on concrete inputs, this section fixes small ones.
\<close>

subsection \<open>A registry in memory\<close>

text \<open>
  The chain holds the recorded owner of each identity, newest entry first, and the
  transaction that was sent and is not mined yet. \<open>identityOwner\<close> reports the recorded
  owner, and the zero address for an identity that has none. An identity without a
  recorded owner acts for itself. A mined \<open>changeOwner\<close> or \<open>changeOwnerSigned\<close> records
  the new owner; the two attribute calls only check the sender.
\<close>

record registryState =
  owners :: "(address \<times> address) list"
  pendingTx :: "transaction option"

definition recordedOwner :: "registryState \<Rightarrow> address \<Rightarrow> address" where
  "recordedOwner w a = (case map_of (owners w) a of None \<Rightarrow> AddressZero | Some b \<Rightarrow> b)"

definition mayAct :: "registryState \<Rightarrow> address \<Rightarrow> address \<Rightarrow> bool" where
  "mayAct w actor a =
     (actor = (if recordedOwner w a = AddressZero then a else recordedOwner w a))"

definition mine :: "registryState \<Rightarrow> transaction \<Rightarrow> registryState option" where
  "mine w t =
     (case invoked t of
        changeOwner a b \<Rightarrow>
          if mayAct w (signer t) a then Some (w\<lparr>owners := (a, b) # owners w\<rparr>) else None
      | changeOwnerSigned a v r sigS b \<Rightarrow> Some (w\<lparr>owners := (a, b) # owners w\<rparr>)
      | setAttribute a n v d \<Rightarrow> if mayAct w (signer t) a then Some w else None
      | revokeAttribute a n v \<Rightarrow> if mayAct w (signer t) a then Some w else None)"

definition memorySend :: "registryState \<Rightarrow> transaction \<Rightarrow> (string + string) \<times> registryState" where
  "memorySend w t = (Inr ''0xf00d'', w\<lparr>pendingTx := Some t\<rparr>)"

definition memoryWait :: "registryState \<Rightarrow> string \<Rightarrow> (string + string) \<times> registryState" where
  "memoryWait w tx =
     (case pendingTx w of
        None \<Rightarrow> (Inl ''unknown transaction'', w)
      | Some t \<Rightarrow>
          (case mine w t of
             None \<Rightarrow> (Inl ''transaction failed'', w\<lparr>pendingTx := None\<rparr>)
           | Some w' \<Rightarrow> (Inr tx, w'\<lparr>pendingTx := None\<rparr>)))"

text \<open>
  The admin wallet and two other accounts. None of the addresses has a letter among its
  digits, so \<open>ethers\<close> accepts them without consulting a checksum.
\<close>

definition admin :: wallet where
  "admin = \<lparr>address = ''0x0000000000000000000000000000000000000001'',
            publicKey = ''0x04a1'', privateKey = ''0xa1''\<rparr>"

definition alice :: wallet where
  "alice = \<lparr>address = ''0x0000000000000000000000000000000000000002'',
            publicKey = ''0x04a2'', privateKey = ''0xa2''\<rparr>"

definition bob :: wallet where
  "bob = \<lparr>address = ''0x0000000000000000000000000000000000000003'',
          publicKey = ''0x04a3'', privateKey = ''0xa3''\<rparr>"

text \<open>
  The library: \<open>isAddress\<close> is the test of \<open>ethers\<close> with a checksum function that
  recognises no mixed-case spelling and no ICAP address; \<open>formatBytes32String\<close> and
  \<open>toUtf8Bytes\<close> are the encoders of \<open>ethers\<close>; hashing and signing return fixed
  values.
\<close>

definition memoryEthers :: "registryState ethers" where
  "memoryEthers =
     \<lparr>registryAddress = ''0x03d5003bf0e79C5F5223588F347ebA39AfbC3818'',
      adminWallet = admin,
      isAddress = ethersIsAddress (\<lambda>a. []) (\<lambda>a. False),
      formatBytes32String = ethersFormatBytes32String,
      toUtf8Bytes = (\<lambda>str. Inr (ethersToUtf8Bytes str)),
      solidityKeccak256 = (\<lambda>vs. Inr ''0xd1''),
      signDigest = (\<lambda>k h. Inr (27, ''0x51'', ''0x52'')),
      identityOwner = (\<lambda>w a. Inr (recordedOwner w a)),
      registryNonce = (\<lambda>w a. Inr 0),
      send = memorySend,
      wait = memoryWait\<rparr>"

text \<open>The same, with a provider that refuses every \<open>setAttribute\<close>.\<close>

definition refusingEthers :: "registryState ethers" where
  "refusingEthers =
     memoryEthers\<lparr>send :=
       (\<lambda>w t. case invoked t of
                 setAttribute a n v d \<Rightarrow> (Inl ''insufficient funds'', w)
               | _ \<Rightarrow> memorySend w t)\<rparr>"


text \<open>
  Three chains: nothing recorded; the admin registered; the admin registered and owning
  the identity of \<open>alice\<close>, while \<open>bob\<close> owns himself.
\<close>

definition emptyRegistry :: "registryState state" where
  "emptyRegistry = \<lparr>world = \<lparr>owners = [], pendingTx = None\<rparr>, submitted = []\<rparr>"

definition adminRegistered :: "registryState state" where
  "adminRegistered =
     \<lparr>world = \<lparr>owners = [(address admin, address admin)], pendingTx = None\<rparr>, submitted = []\<rparr>"

definition aliceManaged :: "registryState state" where
  "aliceManaged =
     \<lparr>world = \<lparr>owners = [(address alice, address admin), (address bob, address bob),
                          (address admin, address admin)],
               pendingTx = None\<rparr>,
      submitted = []\<rparr>"


text \<open>An attribute name of 32 characters.\<close>

definition longName :: string where
  "longName = ''aaaaaaaaaaaaaaaaaaaaaaaaaaaaaaaa''"

text \<open>
  An attribute name of 20 characters, each the letter e with an acute accent (code unit
  \<open>0xE9\<close>, two bytes in UTF-8).
\<close>

definition accentedName :: string where
  "accentedName = replicate 20 (CHR 0xE9)"

subsection \<open>An environment for the contracts\<close>

text \<open>
  Every external call succeeds with empty return data; a signature of 65 bytes recovers
  to the address spelled by its last byte, any other length is malformed.
\<close>

definition testEvm :: evm where
  "testEvm =
     \<lparr>toEthSignedMessageHash = (\<lambda>h. h + 1),
      recover = (\<lambda>h sg. if length sg = 65 then Inr (ucast (last sg))
                         else Inl (CustomError ''ECDSAInvalidSignatureLength'')),
      extcall = (\<lambda>t v d. (True, [])),
      computeAddress = (\<lambda>deployer salt h. deployer + ucast salt + ucast h),
      proxyCreationHash = (\<lambda>impl anOwner. ucast impl + ucast anOwner),
      proxyRuntimeCode = [0x60, 0x80]\<rparr>"

definition testAccount :: SimpleAccount where
  "testAccount = \<lparr>owner = 0xA, entryPoint' = 0xE, nonce' = 7\<rparr>"

definition testFactory :: SimpleAccountFactory where
  "testFactory = \<lparr>this = 0xF00, accountImplementation = 0x1, implementationEntryPoint = 0xE\<rparr>"

definition emptyChain :: chain where
  "emptyChain = \<lparr>codeAt = (\<lambda>a. []), accountAt = (\<lambda>a. None)\<rparr>"

definition testUserOp :: "uint256 \<Rightarrow> evmBytes \<Rightarrow> PackedUserOperation" where
  "testUserOp n sg =
     \<lparr>sender = 0x5, nonce = n, initCode = [], callData = [], accountGasLimits = 0,
      preVerificationGas = 0, gasFees = 0, paymasterAndData = [], signature = sg\<rparr>"

text \<open>The chain after \<open>testFactory\<close> has deployed the account of owner \<open>0xA\<close> with salt 0.\<close>

definition deployedChain :: chain where
  "deployedChain =
     \<lparr>codeAt = (\<lambda>a. if a = 0xF0B then [0x60, 0x80] else []),
      accountAt = (\<lambda>a. if a = 0xF0B then Some \<lparr>owner = 0xA, entryPoint' = 0xE, nonce' = 0\<rparr>
                        else None)\<rparr>"

section \<open>Properties of the DID to address extraction\<close>

lemma split_not_Nil: "split sep s \<noteq> []"
  by (induction s) (auto split: list.splits)

lemma split_no_sep:
  "sep \<notin> set s \<Longrightarrow> split sep s = [s]"
  by (induction s) auto

lemma split_append_sep:
  "sep \<notin> set t \<Longrightarrow> \<exists>ps. ps \<noteq> [] \<and> split sep (s @ sep # t) = ps @ [t]"
proof (induction s)
  case Nil
  then have "split sep ([] @ sep # t) = [[]] @ [t]"
    by (simp add: split_no_sep)
  then show ?case by blast
next
  case (Cons c s)
  then obtain p ps where ps: "split sep (s @ sep # t) = (p # ps) @ [t]"
    by (metis list.exhaust)
  show ?case
  proof (cases "c = sep")
    case True
    with ps have "split sep ((c # s) @ sep # t) = ([] # p # ps) @ [t]" by simp
    then show ?thesis by blast
  next
    case False
    with ps have "split sep ((c # s) @ sep # t) = ((c # p) # ps) @ [t]" by simp
    then show ?thesis by blast
  qed
qed

lemma last_split_append:
  "sep \<notin> set t \<Longrightarrow> last (split sep (s @ sep # t)) = t"
  using split_append_sep [of sep t s] by auto

lemma stripNonHex_id:
  "list_all keptChar s \<Longrightarrow> stripNonHex s = s"
  by (simp add: stripNonHex_def list_all_iff)

lemma keptChar_hexDigit: "hexDigit c \<Longrightarrow> keptChar c"
  by (auto simp: hexDigit_def keptChar_def)

lemma hexAddressForm_kept:
  assumes "hexAddressForm a"
  shows "list_all keptChar a"
proof (cases "take 2 a = ''0x''")
  case True
  then have a: "a = ''0x'' @ drop 2 a"
    by (metis append_take_drop_id)
  from assms True have "list_all hexDigit (drop 2 a)"
    by (simp add: hexAddressForm_def)
  then have "list_all keptChar (drop 2 a)"
    by (simp add: list_all_iff keptChar_hexDigit)
  moreover have "list_all keptChar ''0x''"
    by (simp add: keptChar_def)
  ultimately have "list_all keptChar (''0x'' @ drop 2 a)"
    by (simp only: list_all_append)
  with a show ?thesis by simp
next
  case False
  with assms have "list_all hexDigit a"
    by (simp add: hexAddressForm_def)
  then show ?thesis
    by (simp add: list_all_iff keptChar_hexDigit)
qed

lemma not_kept_colon: "\<not> keptChar CHR '':''"
  by (simp add: keptChar_def)

lemma kept_no_colon: "list_all keptChar a \<Longrightarrow> CHR '':'' \<notin> set a"
  using not_kept_colon by (auto simp: list_all_iff)

lemma extractIdentity_valid:
  assumes "hexAddressForm addr" and "isAddr addr"
  shows "extractIdentity isAddr (''did:ethr:'' @ net @ '':'' @ addr) = Inr addr"
proof -
  have k: "list_all keptChar addr" using assms(1) by (rule hexAddressForm_kept)
  have "last (split CHR '':'' ((''did:ethr:'' @ net) @ CHR '':'' # addr)) = addr"
    using kept_no_colon [OF k] by (rule last_split_append)
  then have l: "last (split CHR '':'' (''did:ethr:'' @ net @ '':'' @ addr)) = addr"
    by simp
  have p: "startsWith (''did:ethr:'' @ net @ '':'' @ addr) ''did:ethr:''"
    unfolding startsWith_def by (rule prefixI) simp
  show ?thesis
    unfolding extractIdentity_def using l p assms(2) stripNonHex_id [OF k]
    by (simp add: Let_def)
qed

text \<open>
  Claim C1, as the code has it. For every DID \<open>did:ethr:<net>:<addr>\<close> whose \<open>addr\<close> has
  the form of a hexadecimal address and is accepted by \<open>isAddress\<close>, the extraction
  returns exactly \<open>addr\<close>, letter case included. An input that does not start with
  \<open>did:ethr:\<close> fails with the unsupported-format error. An input that starts with
  \<open>did:ethr:\<close> fails with the invalid-address error exactly when its last segment,
  after every character outside \<open>[a-fA-F0-9x]\<close> has been deleted, is rejected by
  \<open>isAddress\<close>; otherwise the cleaned segment is returned, also when the segment itself
  is not an address.
\<close>

theorem C1_extraction:
  "(hexAddressForm addr \<and> isAddr addr \<longrightarrow>
      extractIdentity isAddr (''did:ethr:'' @ net @ '':'' @ addr) = Inr addr)
   \<and> (\<not> startsWith did ''did:ethr:'' \<longrightarrow>
        extractIdentity isAddr did = Inl (UnsupportedDid did))
   \<and> (startsWith did ''did:ethr:'' \<and> \<not> isAddr (stripNonHex (last (split CHR '':'' did))) \<longrightarrow>
        extractIdentity isAddr did
          = Inl (InvalidDidAddress (stripNonHex (last (split CHR '':'' did)))))
   \<and> (startsWith did ''did:ethr:'' \<and> isAddr (stripNonHex (last (split CHR '':'' did))) \<longrightarrow>
        extractIdentity isAddr did = Inr (stripNonHex (last (split CHR '':'' did))))"
  using extractIdentity_valid [of addr isAddr net]
  by (simp add: extractIdentity_def Let_def)

text \<open>
  The deletion of the characters outside \<open>[a-fA-F0-9x]\<close> turns a segment that is not an
  address into one, whatever the checksum function is.
\<close>

lemma trailing_garbage_accepted:
  "\<not> ethersIsAddress cks icap ''0x0000000000000000000000000000000000000000zz''
   \<and> extractIdentity (ethersIsAddress cks icap)
        ''did:ethr:sepolia:0x0000000000000000000000000000000000000000zz''
       = Inr ''0x0000000000000000000000000000000000000000''"
  by (simp add: extractIdentity_def startsWith_def stripNonHex_def keptChar_def
      ethersIsAddress_def hexAddressForm_def hexDigit_def mixedCase_def icapForm_def Let_def)

text \<open>
  Claim C1 as stated fails: the trailing segment \<open>0x00...00zz\<close> is not a hexadecimal
  address, and the extraction does not fail on it but returns the zero address.
\<close>

theorem C1_counterexample:
  "last (split CHR '':'' ''did:ethr:sepolia:0x0000000000000000000000000000000000000000zz'')
     = ''0x0000000000000000000000000000000000000000zz''
   \<and> \<not> hexAddressForm ''0x0000000000000000000000000000000000000000zz''
   \<and> \<not> isAddress memoryEthers ''0x0000000000000000000000000000000000000000zz''
   \<and> extractIdentity (isAddress memoryEthers)
        ''did:ethr:sepolia:0x0000000000000000000000000000000000000000zz''
       = Inr ''0x0000000000000000000000000000000000000000''"
  using trailing_garbage_accepted [of "\<lambda>a. []" "\<lambda>a. False"]
  by (simp add: memoryEthers_def hexAddressForm_def hexDigit_def)

theorem C1_extraction_witness:
  "hexAddressForm ''0x00000000000000000000000000000000000000aB''
   \<and> ethersIsAddress (\<lambda>a. a) (\<lambda>a. False) ''0x00000000000000000000000000000000000000aB''
   \<and> extractIdentity (ethersIsAddress (\<lambda>a. a) (\<lambda>a. False))
        ''did:ethr:sepolia:0x00000000000000000000000000000000000000aB''
       = Inr ''0x00000000000000000000000000000000000000aB''
   \<and> \<not> startsWith ''did:web:example.com'' ''did:ethr:''
   \<and> extractIdentity (isAddress memoryEthers) ''did:web:example.com''
       = Inl (UnsupportedDid ''did:web:example.com'')
   \<and> startsWith ''did:ethr:sepolia:0x12'' ''did:ethr:''
   \<and> \<not> isAddress memoryEthers (stripNonHex (last (split CHR '':'' ''did:ethr:sepolia:0x12'')))
   \<and> extractIdentity (isAddress memoryEthers) ''did:ethr:sepolia:0x12''
       = Inl (InvalidDidAddress ''0x12'')
   \<and> startsWith ''did:ethr:0x0000000000000000000000000000000000000002'' ''did:ethr:''
   \<and> isAddress memoryEthers
        (stripNonHex (last (split CHR '':'' ''did:ethr:0x0000000000000000000000000000000000000002'')))
   \<and> extractIdentity (isAddress memoryEthers) ''did:ethr:0x0000000000000000000000000000000000000002''
       = Inr ''0x0000000000000000000000000000000000000002''"
proof -
  let ?a = "''0x00000000000000000000000000000000000000aB''"
  have f: "hexAddressForm ?a" by (simp add: hexAddressForm_def hexDigit_def)
  have v: "ethersIsAddress (\<lambda>a. a) (\<lambda>a. False) ?a"
    by (simp add: ethersIsAddress_def f)
  have 1: "extractIdentity (ethersIsAddress (\<lambda>a. a) (\<lambda>a. False)) (''did:ethr:'' @ ''sepolia'' @ '':'' @ ?a) = Inr ?a"
    using C1_extraction [of ?a "ethersIsAddress (\<lambda>a. a) (\<lambda>a. False)" "''sepolia''"] f v by blast
  have 2: "\<not> startsWith ''did:web:example.com'' ''did:ethr:''" by (simp add: startsWith_def)
  have 3: "extractIdentity (isAddress memoryEthers) ''did:web:example.com''
       = Inl (UnsupportedDid ''did:web:example.com'')"
    using C1_extraction [of _ "isAddress memoryEthers" _ "''did:web:example.com''"] 2 by blast
  have 4: "startsWith ''did:ethr:sepolia:0x12'' ''did:ethr:''" by (simp add: startsWith_def)
  have 5: "stripNonHex (last (split CHR '':'' ''did:ethr:sepolia:0x12'')) = ''0x12''"
    by (simp add: stripNonHex_def keptChar_def)
  have 6: "\<not> isAddress memoryEthers ''0x12''"
    by (simp add: memoryEthers_def ethersIsAddress_def hexAddressForm_def icapForm_def)
  have 7: "extractIdentity (isAddress memoryEthers) ''did:ethr:sepolia:0x12''
       = Inl (InvalidDidAddress ''0x12'')"
    using C1_extraction [of _ "isAddress memoryEthers" _ "''did:ethr:sepolia:0x12''"] 4 5 6 by simp
  let ?d = "''did:ethr:0x0000000000000000000000000000000000000002''"
  have 8: "startsWith ?d ''did:ethr:''" by (simp add: startsWith_def)
  have 9: "stripNonHex (last (split CHR '':'' ?d)) = ''0x0000000000000000000000000000000000000002''"
    by (simp add: stripNonHex_def keptChar_def)
  have 10: "isAddress memoryEthers ''0x0000000000000000000000000000000000000002''"
    by (simp add: memoryEthers_def ethersIsAddress_def hexAddressForm_def hexDigit_def mixedCase_def)
  have 11: "extractIdentity (isAddress memoryEthers) ?d = Inr ''0x0000000000000000000000000000000000000002''"
    using C1_extraction [of _ "isAddress memoryEthers" _ ?d] 8 9 10 by simp
  show ?thesis using f v 1 2 3 4 5 6 7 8 9 10 11 by simp
qed

section \<open>Properties of the contracts\<close>

lemma unat_succ_256: "(x :: 256 word) \<noteq> - 1 \<Longrightarrow> unat (x + 1) = unat x + 1"
proof -
  assume "x \<noteq> - 1"
  then have "1 + x \<noteq> 0"
    by (metis add.commute max_word_wrap)
  then have "unat (1 + x) = Suc (unat x)" by (rule unatSuc)
  then show ?thesis by (simp add: add.commute)
qed

lemma validateNonce_Inr:
  "validateNonce acct n = Inr acct' \<Longrightarrow>
     n = nonce' acct \<and> nonce' acct \<noteq> - 1 \<and> acct' = acct\<lparr>nonce' := nonce' acct + 1\<rparr>"
  by (auto simp: validateNonce_def split: if_splits)

lemma validateUserOp_Returned:
  assumes "fst (validateUserOp V acct msgSender userOp h m) = Returned v acct'"
  shows "validateNonce acct (nonce userOp) = Inr acct' \<and> msgSender = entryPoint' acct
         \<and> validateSignature V acct userOp h = Inr v"
  using assms
  by (auto simp: validateUserOp_def split: if_splits sum.splits prod.splits)

lemma validateUserOp_mismatch:
  assumes "nonce userOp \<noteq> nonce' acct"
  shows "\<exists>d. fst (validateUserOp V acct msgSender userOp h m) = Reverted d"
proof -
  have "validateNonce acct (nonce userOp) = Inl (ErrorString ''invalid nonce'')"
    using assms by (simp add: validateNonce_def)
  then show ?thesis
    by (auto simp: validateUserOp_def split: sum.splits)
qed

text \<open>
  Claim C8. A call of \<open>validateUserOp\<close> whose operation carries a nonce other than the
  stored one reverts, whoever calls and whatever the signature is. A call that returns
  has found the nonces equal and leaves the stored nonce larger by exactly one, with no
  wrap-around, and nothing else changed. A call that reverts leaves the storage as it
  was. So one call moves the nonce by nothing or by one.
\<close>

theorem C8_nonce:
  "(nonce userOp \<noteq> nonce' acct \<longrightarrow>
      (\<exists>d. fst (validateUserOp V acct msgSender userOp h m) = Reverted d))
   \<and> (fst (validateUserOp V acct msgSender userOp h m) = Returned v acct' \<longrightarrow>
        nonce userOp = nonce' acct
        \<and> unat (nonce' acct') = unat (nonce' acct) + 1
        \<and> acct' = acct\<lparr>nonce' := nonce' acct + 1\<rparr>)
   \<and> (fst (validateUserOp V acct msgSender userOp h m) = Reverted d \<longrightarrow>
        storageAfter acct (fst (validateUserOp V acct msgSender userOp h m)) = acct)
   \<and> (nonce' (storageAfter acct (fst (validateUserOp V acct msgSender userOp h m))) = nonce' acct
        \<or> unat (nonce' (storageAfter acct (fst (validateUserOp V acct msgSender userOp h m))))
             = unat (nonce' acct) + 1)"
proof -
  let ?r = "fst (validateUserOp V acct msgSender userOp h m)"
  have ret: "nonce userOp = nonce' acct \<and> unat (nonce' a) = unat (nonce' acct) + 1
             \<and> a = acct\<lparr>nonce' := nonce' acct + 1\<rparr>" if "?r = Returned x a" for x a
  proof -
    from that have "validateNonce acct (nonce userOp) = Inr a"
      using validateUserOp_Returned by blast
    then have *: "nonce userOp = nonce' acct \<and> nonce' acct \<noteq> - 1
        \<and> a = acct\<lparr>nonce' := nonce' acct + 1\<rparr>"
      by (rule validateNonce_Inr)
    then show ?thesis by (simp add: unat_succ_256)
  qed
  have 4: "nonce' (storageAfter acct ?r) = nonce' acct
        \<or> unat (nonce' (storageAfter acct ?r)) = unat (nonce' acct) + 1"
  proof (cases ?r)
    case (Reverted d)
    then show ?thesis by (simp add: storageAfter_def)
  next
    case (Returned x a)
    have "unat (nonce' a) = unat (nonce' acct) + 1"
      using ret [OF Returned] by blast
    moreover have "storageAfter acct ?r = a"
      by (simp add: Returned storageAfter_def)
    ultimately have "unat (nonce' (storageAfter acct ?r)) = unat (nonce' acct) + 1"
      by (simp only:)
    then show ?thesis by (rule disjI2)
  qed
  show ?thesis
    using validateUserOp_mismatch [of userOp acct V msgSender h m] ret [of v acct'] 4
    by (auto simp: storageAfter_def)
qed

theorem C8_nonce_witness:
  "nonce (testUserOp 8 []) \<noteq> nonce' testAccount
   \<and> (\<exists>d. fst (validateUserOp testEvm testAccount 0xE (testUserOp 8 []) 0 0) = Reverted d)
   \<and> fst (validateUserOp testEvm testAccount 0xE (testUserOp 7 (replicate 64 0 @ [0xA])) 0 0)
       = Returned 0 (testAccount\<lparr>nonce' := 8\<rparr>)
   \<and> unat (nonce' (testAccount\<lparr>nonce' := 8\<rparr>)) = unat (nonce' testAccount) + 1
   \<and> fst (validateUserOp testEvm testAccount 0xB (testUserOp 7 []) 0 0)
       = Reverted (ErrorString ''not from EntryPoint'')
   \<and> storageAfter testAccount (fst (validateUserOp testEvm testAccount 0xB (testUserOp 7 []) 0 0))
       = testAccount"
proof -
  have 1: "nonce (testUserOp 8 []) \<noteq> nonce' testAccount"
    by (simp add: testUserOp_def testAccount_def)
  have 2: "fst (validateUserOp testEvm testAccount 0xE (testUserOp 7 (replicate 64 0 @ [0xA])) 0 0)
       = Returned 0 (testAccount\<lparr>nonce' := 8\<rparr>)"
    by (simp add: validateUserOp_def validateSignature_def validateNonce_def payPrefund_def
        testEvm_def testAccount_def testUserOp_def SIG_VALIDATION_SUCCESS_def
        SIG_VALIDATION_FAILED_def Let_def)
  have 3: "fst (validateUserOp testEvm testAccount 0xB (testUserOp 7 []) 0 0)
       = Reverted (ErrorString ''not from EntryPoint'')"
    by (simp add: validateUserOp_def testAccount_def)
  have 4: "\<exists>d. fst (validateUserOp testEvm testAccount 0xE (testUserOp 8 []) 0 0) = Reverted d"
    using C8_nonce [of "testUserOp 8 []" testAccount testEvm "0xE" 0 0] 1 by blast
  have 5: "unat (nonce' (testAccount\<lparr>nonce' := 8\<rparr>)) = unat (nonce' testAccount) + 1"
    using C8_nonce [of "testUserOp 7 (replicate 64 0 @ [0xA])" testAccount testEvm "0xE" 0 0
                  0 "testAccount\<lparr>nonce' := 8\<rparr>"] 2 by blast
  have 6: "storageAfter testAccount
      (fst (validateUserOp testEvm testAccount 0xB (testUserOp 7 []) 0 0)) = testAccount"
    using C8_nonce [of "testUserOp 7 []" testAccount testEvm "0xB" 0 0 _ _
                  "ErrorString ''not from EntryPoint''"] 3 by blast
  show ?thesis
    using 1 2 3 4 5 6 by blast
qed

lemma execute_unauthorized:
  assumes "msgSender \<noteq> owner acct" and "msgSender \<noteq> entryPoint' acct"
  shows "execute V acct msgSender dest val func = (Reverted (ErrorString ''not authorized''), [])"
  using assms by (simp add: execute_def)

lemma call'_trace:
  "snd (call' V tgt val dat) = [\<lparr>target = tgt, amount = val, payload = dat\<rparr>]"
  by (simp add: call'_def split: prod.splits)

lemma call'_result:
  "fst (call' V tgt val dat)
     = (if fst (extcall V tgt val dat) then Inr () else Inl (Bubbled (snd (extcall V tgt val dat))))"
  by (simp add: call'_def split: prod.splits)

lemma execute_authorized:
  assumes "msgSender = owner acct \<or> msgSender = entryPoint' acct"
  shows "snd (execute V acct msgSender dest val func)
           = [\<lparr>target = dest, amount = val, payload = func\<rparr>]"
    and "fst (execute V acct msgSender dest val func)
           = (if fst (extcall V dest val func) then Returned () acct
              else Reverted (Bubbled (snd (extcall V dest val func))))"
proof -
  obtain r calls where c: "call' V dest val func = (r, calls)"
    by (cases "call' V dest val func")
  have calls: "calls = [\<lparr>target = dest, amount = val, payload = func\<rparr>]"
    using call'_trace [of V dest val func] c by simp
  have r: "r = (if fst (extcall V dest val func) then Inr ()
                else Inl (Bubbled (snd (extcall V dest val func))))"
    using call'_result [of V dest val func] c by simp
  from assms have e: "execute V acct msgSender dest val func
      = (case r of Inl d \<Rightarrow> (Reverted d, calls) | Inr u \<Rightarrow> (Returned () acct, calls))"
    by (auto simp: execute_def c split: sum.splits)
  show "snd (execute V acct msgSender dest val func)
           = [\<lparr>target = dest, amount = val, payload = func\<rparr>]"
    by (cases r) (simp_all add: e calls)
  show "fst (execute V acct msgSender dest val func)
           = (if fst (extcall V dest val func) then Returned () acct
              else Reverted (Bubbled (snd (extcall V dest val func))))"
    by (simp add: e r)
qed

text \<open>
  Claim C9. Called by anyone but the owner or the EntryPoint, \<open>execute\<close> reverts with
  \<open>not authorized\<close> and makes no external call. Called by the owner or the EntryPoint,
  it makes exactly the requested call; it returns when the call succeeds and reverts
  with the return data of the call when it fails.
\<close>

theorem C9_execute:
  "(msgSender \<noteq> owner acct \<and> msgSender \<noteq> entryPoint' acct \<longrightarrow>
      execute V acct msgSender dest val func = (Reverted (ErrorString ''not authorized''), []))
   \<and> (msgSender = owner acct \<or> msgSender = entryPoint' acct \<longrightarrow>
        snd (execute V acct msgSender dest val func)
          = [\<lparr>target = dest, amount = val, payload = func\<rparr>]
        \<and> fst (execute V acct msgSender dest val func)
          = (if fst (extcall V dest val func) then Returned () acct
             else Reverted (Bubbled (snd (extcall V dest val func)))))"
proof (intro conjI impI)
  assume "msgSender \<noteq> owner acct \<and> msgSender \<noteq> entryPoint' acct"
  then show "execute V acct msgSender dest val func
      = (Reverted (ErrorString ''not authorized''), [])"
    by (simp add: execute_unauthorized)
next
  assume a: "msgSender = owner acct \<or> msgSender = entryPoint' acct"
  show "snd (execute V acct msgSender dest val func)
          = [\<lparr>target = dest, amount = val, payload = func\<rparr>]"
    using a by (rule execute_authorized(1))
  show "fst (execute V acct msgSender dest val func)
          = (if fst (extcall V dest val func) then Returned () acct
             else Reverted (Bubbled (snd (extcall V dest val func))))"
    using a by (rule execute_authorized(2))
qed

theorem C9_execute_witness:
  "(0xB :: evmAddress) \<noteq> owner testAccount \<and> 0xB \<noteq> entryPoint' testAccount
   \<and> execute testEvm testAccount 0xB 0xD 5 [1, 2]
       = (Reverted (ErrorString ''not authorized''), [])
   \<and> (0xA :: evmAddress) = owner testAccount
   \<and> execute testEvm testAccount 0xA 0xD 5 [1, 2]
       = (Returned () testAccount, [\<lparr>target = 0xD, amount = 5, payload = [1, 2]\<rparr>])
   \<and> (0xE :: evmAddress) = entryPoint' testAccount
   \<and> execute testEvm testAccount 0xE 0xD 5 [1, 2]
       = (Returned () testAccount, [\<lparr>target = 0xD, amount = 5, payload = [1, 2]\<rparr>])"
proof -
  have 1: "(0xB :: evmAddress) \<noteq> owner testAccount \<and> 0xB \<noteq> entryPoint' testAccount"
    by (simp add: testAccount_def)
  have 2: "(0xA :: evmAddress) = owner testAccount" "(0xE :: evmAddress) = entryPoint' testAccount"
    by (simp_all add: testAccount_def)
  have 3: "extcall testEvm 0xD 5 [1, 2] = (True, [])" by (simp add: testEvm_def)
  show ?thesis
    using C9_execute [of "0xB" testAccount testEvm "0xD" 5 "[1, 2]"]
      C9_execute [of "0xA" testAccount testEvm "0xD" 5 "[1, 2]"]
      C9_execute [of "0xE" testAccount testEvm "0xD" 5 "[1, 2]"] 1 2 3
    by (simp add: prod_eq_iff)
qed

lemma validateUserOp_malformed:
  assumes "recover V (toEthSignedMessageHash V h) (signature userOp) = Inl d"
  shows "\<exists>d'. fst (validateUserOp V acct msgSender userOp h m) = Reverted d'"
    and "msgSender = entryPoint' acct \<Longrightarrow>
           validateUserOp V acct msgSender userOp h m = (Reverted d, [])"
proof -
  have s: "validateSignature V acct userOp h = Inl d"
    using assms by (simp add: validateSignature_def Let_def)
  show "\<exists>d'. fst (validateUserOp V acct msgSender userOp h m) = Reverted d'"
    by (simp add: validateUserOp_def s)
  show "validateUserOp V acct msgSender userOp h m = (Reverted d, [])"
    if "msgSender = entryPoint' acct"
    using that by (simp add: validateUserOp_def s)
qed

lemma validateUserOp_wrong_signer:
  assumes "msgSender = entryPoint' acct"
    and "recover V (toEthSignedMessageHash V h) (signature userOp) = Inr recovered"
    and "recovered \<noteq> owner acct"
    and "nonce userOp = nonce' acct"
    and "nonce' acct \<noteq> - 1"
    and "m = 0 \<or> fst (extcall V msgSender m [])"
  shows "fst (validateUserOp V acct msgSender userOp h m)
         = Returned SIG_VALIDATION_FAILED (acct\<lparr>nonce' := nonce' acct + 1\<rparr>)"
  using assms
  by (auto simp: validateUserOp_def validateSignature_def validateNonce_def payPrefund_def
      Let_def split: prod.splits)

text \<open>
  Claim C10, as the code has it. A signature that \<open>ECDSA.recover\<close> accepts and that
  recovers to an address other than the owner does not abort \<open>validateUserOp\<close>: when
  the EntryPoint calls with the stored nonce, the nonce is not the largest value, and
  the prefund (if any is due) is paid, the call returns \<open>SIG_VALIDATION_FAILED\<close>, which
  is 1, and the stored nonce has advanced by one. A signature on which \<open>ECDSA.recover\<close>
  reverts aborts the call, whoever calls: the storage, and so the nonce, stays as it
  was, and a call from the EntryPoint reverts with the revert data of \<open>recover\<close> before
  any external call is made.
\<close>

theorem C10_failed_signature_consumes_nonce:
  "(msgSender = entryPoint' acct
    \<and> recover V (toEthSignedMessageHash V h) (signature userOp) = Inr recovered
    \<and> recovered \<noteq> owner acct
    \<and> nonce userOp = nonce' acct
    \<and> nonce' acct \<noteq> - 1
    \<and> (m = 0 \<or> fst (extcall V msgSender m []))
    \<longrightarrow> fst (validateUserOp V acct msgSender userOp h m)
          = Returned SIG_VALIDATION_FAILED (acct\<lparr>nonce' := nonce' acct + 1\<rparr>)
        \<and> SIG_VALIDATION_FAILED = 1
        \<and> unat (nonce' (storageAfter acct (fst (validateUserOp V acct msgSender userOp h m))))
            = unat (nonce' acct) + 1)
   \<and> (recover V (toEthSignedMessageHash V h) (signature userOp) = Inl d
       \<longrightarrow> (\<exists>d'. fst (validateUserOp V acct msgSender userOp h m) = Reverted d')
           \<and> storageAfter acct (fst (validateUserOp V acct msgSender userOp h m)) = acct
           \<and> (msgSender = entryPoint' acct
                \<longrightarrow> validateUserOp V acct msgSender userOp h m = (Reverted d, [])))"
proof (intro conjI impI)
  assume a: "msgSender = entryPoint' acct
    \<and> recover V (toEthSignedMessageHash V h) (signature userOp) = Inr recovered
    \<and> recovered \<noteq> owner acct
    \<and> nonce userOp = nonce' acct
    \<and> nonce' acct \<noteq> - 1
    \<and> (m = 0 \<or> fst (extcall V msgSender m []))"
  then have r: "fst (validateUserOp V acct msgSender userOp h m)
         = Returned SIG_VALIDATION_FAILED (acct\<lparr>nonce' := nonce' acct + 1\<rparr>)"
    using validateUserOp_wrong_signer [of msgSender acct V h userOp recovered m] by blast
  then show "fst (validateUserOp V acct msgSender userOp h m)
         = Returned SIG_VALIDATION_FAILED (acct\<lparr>nonce' := nonce' acct + 1\<rparr>)" .
  show "SIG_VALIDATION_FAILED = 1" by (simp add: SIG_VALIDATION_FAILED_def)
  from a have "nonce' acct \<noteq> - 1" by simp
  then show "unat (nonce' (storageAfter acct (fst (validateUserOp V acct msgSender userOp h m))))
            = unat (nonce' acct) + 1"
    by (simp add: r storageAfter_def unat_succ_256)
next
  assume b: "recover V (toEthSignedMessageHash V h) (signature userOp) = Inl d"
  from validateUserOp_malformed(1) [OF b]
  obtain d' where d': "fst (validateUserOp V acct msgSender userOp h m) = Reverted d'"
    by blast
  then show "\<exists>d'. fst (validateUserOp V acct msgSender userOp h m) = Reverted d'" by blast
  from d' show "storageAfter acct (fst (validateUserOp V acct msgSender userOp h m)) = acct"
    by (simp add: storageAfter_def)
  show "validateUserOp V acct msgSender userOp h m = (Reverted d, [])"
    if "msgSender = entryPoint' acct"
    using b that by (rule validateUserOp_malformed(2))
qed

text \<open>
  Claim C10 as stated fails: the empty signature is an invalid signature, \<open>recover\<close>
  reverts on it, and the call of the EntryPoint with the stored nonce is aborted and
  leaves the nonce where it was.
\<close>

theorem C10_counterexample:
  "signature (testUserOp 7 []) = []
   \<and> recover testEvm (toEthSignedMessageHash testEvm 3) []
       = Inl (CustomError ''ECDSAInvalidSignatureLength'')
   \<and> (0xE :: evmAddress) = entryPoint' testAccount
   \<and> nonce (testUserOp 7 []) = nonce' testAccount
   \<and> validateUserOp testEvm testAccount 0xE (testUserOp 7 []) 3 9
       = (Reverted (CustomError ''ECDSAInvalidSignatureLength''), [])
   \<and> nonce' (storageAfter testAccount
        (fst (validateUserOp testEvm testAccount 0xE (testUserOp 7 []) 3 9)))
       = nonce' testAccount"
proof -
  have 1: "signature (testUserOp 7 []) = []" by (simp add: testUserOp_def)
  have 2: "recover testEvm (toEthSignedMessageHash testEvm 3) []
       = Inl (CustomError ''ECDSAInvalidSignatureLength'')"
    by (simp add: testEvm_def)
  have 3: "(0xE :: evmAddress) = entryPoint' testAccount" by (simp add: testAccount_def)
  have 4: "nonce (testUserOp 7 []) = nonce' testAccount"
    by (simp add: testAccount_def testUserOp_def)
  have 5: "validateUserOp testEvm testAccount 0xE (testUserOp 7 []) 3 9
       = (Reverted (CustomError ''ECDSAInvalidSignatureLength''), [])"
    by (simp add: validateUserOp_def validateSignature_def Let_def 1 2)
       (simp add: testAccount_def)
  have 6: "nonce' (storageAfter testAccount
        (fst (validateUserOp testEvm testAccount 0xE (testUserOp 7 []) 3 9)))
       = nonce' testAccount"
    by (simp add: 5 storageAfter_def)
  show ?thesis using 1 2 3 4 5 6 by (intro conjI)
qed

theorem C10_failed_signature_witness:
  "(0xE :: evmAddress) = entryPoint' testAccount
   \<and> recover testEvm (toEthSignedMessageHash testEvm 3)
        (signature (testUserOp 7 (replicate 64 0 @ [0xB]))) = Inr 0xB
   \<and> (0xB :: evmAddress) \<noteq> owner testAccount
   \<and> nonce (testUserOp 7 (replicate 64 0 @ [0xB])) = nonce' testAccount
   \<and> nonce' testAccount \<noteq> - 1
   \<and> fst (extcall testEvm 0xE 9 [])
   \<and> fst (validateUserOp testEvm testAccount 0xE (testUserOp 7 (replicate 64 0 @ [0xB])) 3 9)
       = Returned 1 (testAccount\<lparr>nonce' := 8\<rparr>)
   \<and> recover testEvm (toEthSignedMessageHash testEvm 3) (signature (testUserOp 7 [1, 2]))
       = Inl (CustomError ''ECDSAInvalidSignatureLength'')
   \<and> validateUserOp testEvm testAccount 0xE (testUserOp 7 [1, 2]) 3 9
       = (Reverted (CustomError ''ECDSAInvalidSignatureLength''), [])
   \<and> storageAfter testAccount
        (fst (validateUserOp testEvm testAccount 0xE (testUserOp 7 [1, 2]) 3 9)) = testAccount"
proof -
  have 1: "(0xE :: evmAddress) = entryPoint' testAccount" by (simp add: testAccount_def)
  have 2: "recover testEvm (toEthSignedMessageHash testEvm 3)
        (signature (testUserOp 7 (replicate 64 0 @ [0xB]))) = Inr 0xB"
    by (simp add: testEvm_def testUserOp_def)
  have 3: "(0xB :: evmAddress) \<noteq> owner testAccount" by (simp add: testAccount_def)
  have 4: "nonce (testUserOp 7 (replicate 64 0 @ [0xB])) = nonce' testAccount"
    by (simp add: testAccount_def testUserOp_def)
  have 5: "nonce' testAccount \<noteq> - 1" by (simp add: testAccount_def)
  have 6: "fst (extcall testEvm 0xE 9 [])" by (simp add: testEvm_def)
  have 7: "nonce' testAccount + 1 = 8" by (simp add: testAccount_def)
  have p: "(0xE :: evmAddress) = entryPoint' testAccount
    \<and> recover testEvm (toEthSignedMessageHash testEvm 3)
        (signature (testUserOp 7 (replicate 64 0 @ [0xB]))) = Inr 0xB
    \<and> 0xB \<noteq> owner testAccount
    \<and> nonce (testUserOp 7 (replicate 64 0 @ [0xB])) = nonce' testAccount
    \<and> nonce' testAccount \<noteq> - 1
    \<and> ((9 :: uint256) = 0 \<or> fst (extcall testEvm 0xE 9 []))"
    using 1 2 3 4 5 6 by (intro conjI disjI2)
  have "fst (validateUserOp testEvm testAccount 0xE (testUserOp 7 (replicate 64 0 @ [0xB])) 3 9)
       = Returned SIG_VALIDATION_FAILED (testAccount\<lparr>nonce' := nonce' testAccount + 1\<rparr>)"
    using C10_failed_signature_consumes_nonce [THEN conjunct1, THEN mp, OF p, THEN conjunct1] .
  then have 8: "fst (validateUserOp testEvm testAccount 0xE
        (testUserOp 7 (replicate 64 0 @ [0xB])) 3 9) = Returned 1 (testAccount\<lparr>nonce' := 8\<rparr>)"
    by (simp only: 7 SIG_VALIDATION_FAILED_def)
  have 9: "recover testEvm (toEthSignedMessageHash testEvm 3) (signature (testUserOp 7 [1, 2]))
       = Inl (CustomError ''ECDSAInvalidSignatureLength'')"
    by (simp add: testEvm_def testUserOp_def)
  note m = C10_failed_signature_consumes_nonce [of _ testAccount testEvm 3 "testUserOp 7 [1, 2]"
      _ _ "CustomError ''ECDSAInvalidSignatureLength''", THEN conjunct2, THEN mp, OF 9]
  have 10: "validateUserOp testEvm testAccount 0xE (testUserOp 7 [1, 2]) 3 9
       = (Reverted (CustomError ''ECDSAInvalidSignatureLength''), [])"
    using m [of "0xE" 9, THEN conjunct2, THEN conjunct2, THEN mp, OF 1] .
  have 11: "storageAfter testAccount
        (fst (validateUserOp testEvm testAccount 0xE (testUserOp 7 [1, 2]) 3 9)) = testAccount"
    using m [of "0xE" 9, THEN conjunct2, THEN conjunct1] .
  show ?thesis using 1 2 3 4 5 6 8 9 10 11 by (intro conjI)
qed


lemma newERC1967Proxy_fresh:
  assumes "codeAt c (getAddress V F anOwner salt) = []"
  shows "newERC1967Proxy V F c anOwner salt
    = Inr (getAddress V F anOwner salt,
           c\<lparr>codeAt := (codeAt c)(getAddress V F anOwner salt := proxyRuntimeCode V),
             accountAt := (accountAt c)(getAddress V F anOwner salt \<mapsto>
               \<lparr>owner = anOwner, entryPoint' = implementationEntryPoint F, nonce' = 0\<rparr>)\<rparr>,
           [SimpleAccountInitialized (implementationEntryPoint F) anOwner])"
  using assms by (simp add: newERC1967Proxy_def getAddress_def initialize_def Let_def)

lemma createAccount_existing:
  "codeAt c (getAddress V F anOwner salt) \<noteq> [] \<Longrightarrow>
     createAccount V F c anOwner salt = Inr (getAddress V F anOwner salt, c, [])"
  by (simp add: createAccount_def Let_def)

lemma createAccount_fresh:
  assumes "codeAt c (getAddress V F anOwner salt) = []"
  shows "\<exists>c' events. createAccount V F c anOwner salt = Inr (getAddress V F anOwner salt, c', events)
           \<and> codeAt c' (getAddress V F anOwner salt) = proxyRuntimeCode V"
  using assms newERC1967Proxy_fresh [OF assms]
  by (simp add: createAccount_def Let_def)

text \<open>
  Claim C7. With a proxy whose runtime code is not empty, \<open>createAccount\<close> called twice
  with the same owner and salt returns the address \<open>getAddress\<close> computes both times,
  and the second call changes nothing on the chain and emits no event. In general,
  when code exists at the computed address, \<open>createAccount\<close> returns that address,
  leaves the chain as it is and deploys nothing.
\<close>

theorem C7_createAccount_idempotent:
  "(proxyRuntimeCode V \<noteq> [] \<longrightarrow>
      (\<exists>c1 events. createAccount V F c anOwner salt = Inr (getAddress V F anOwner salt, c1, events)
         \<and> createAccount V F c1 anOwner salt = Inr (getAddress V F anOwner salt, c1, [])))
   \<and> (codeAt c (getAddress V F anOwner salt) \<noteq> [] \<longrightarrow>
        createAccount V F c anOwner salt = Inr (getAddress V F anOwner salt, c, []))"
proof (intro conjI impI)
  assume code: "proxyRuntimeCode V \<noteq> []"
  show "\<exists>c1 events. createAccount V F c anOwner salt = Inr (getAddress V F anOwner salt, c1, events)
         \<and> createAccount V F c1 anOwner salt = Inr (getAddress V F anOwner salt, c1, [])"
  proof (cases "codeAt c (getAddress V F anOwner salt) = []")
    case True
    then obtain c' events where
      1: "createAccount V F c anOwner salt = Inr (getAddress V F anOwner salt, c', events)"
      and 2: "codeAt c' (getAddress V F anOwner salt) = proxyRuntimeCode V"
      using createAccount_fresh by blast
    from 2 code have "codeAt c' (getAddress V F anOwner salt) \<noteq> []" by simp
    then have "createAccount V F c' anOwner salt = Inr (getAddress V F anOwner salt, c', [])"
      by (rule createAccount_existing)
    with 1 show ?thesis by blast
  next
    case False
    then have "createAccount V F c anOwner salt = Inr (getAddress V F anOwner salt, c, [])"
      by (rule createAccount_existing)
    then show ?thesis by blast
  qed
next
  assume "codeAt c (getAddress V F anOwner salt) \<noteq> []"
  then show "createAccount V F c anOwner salt = Inr (getAddress V F anOwner salt, c, [])"
    by (rule createAccount_existing)
qed

lemma getAddress_test: "getAddress testEvm testFactory 0xA 0 = 0xF0B"
  by (simp add: getAddress_def testEvm_def testFactory_def)

lemma createAccount_test:
  "createAccount testEvm testFactory emptyChain 0xA 0
     = Inr (0xF0B, deployedChain,
            [SimpleAccountInitialized 0xE 0xA, AccountCreated 0xF0B 0xA 0])"
proof -
  have "codeAt emptyChain (getAddress testEvm testFactory 0xA 0) = []"
    by (simp add: emptyChain_def)
  from newERC1967Proxy_fresh [OF this, unfolded getAddress_test]
  have "newERC1967Proxy testEvm testFactory emptyChain 0xA 0
    = Inr (0xF0B, deployedChain, [SimpleAccountInitialized 0xE 0xA])"
    by (simp add: deployedChain_def emptyChain_def testEvm_def testFactory_def fun_eq_iff)
  then show ?thesis
    by (simp add: createAccount_def getAddress_test emptyChain_def Let_def)
qed

theorem C7_createAccount_witness:
  "proxyRuntimeCode testEvm \<noteq> []
   \<and> createAccount testEvm testFactory emptyChain 0xA 0
       = Inr (0xF0B, deployedChain,
              [SimpleAccountInitialized 0xE 0xA, AccountCreated 0xF0B 0xA 0])
   \<and> codeAt deployedChain (getAddress testEvm testFactory 0xA 0) \<noteq> []
   \<and> createAccount testEvm testFactory deployedChain 0xA 0 = Inr (0xF0B, deployedChain, [])"
proof -
  have 1: "proxyRuntimeCode testEvm \<noteq> []" by (simp add: testEvm_def)
  have 2: "codeAt deployedChain (getAddress testEvm testFactory 0xA 0) \<noteq> []"
    by (simp add: getAddress_test deployedChain_def)
  have 3: "createAccount testEvm testFactory deployedChain 0xA 0 = Inr (0xF0B, deployedChain, [])"
    using C7_createAccount_idempotent [of testEvm testFactory deployedChain "0xA" 0] 2
    by (simp add: getAddress_test)
  have "\<exists>c1 events. createAccount testEvm testFactory emptyChain 0xA 0 = Inr (0xF0B, c1, events)
         \<and> createAccount testEvm testFactory c1 0xA 0 = Inr (0xF0B, c1, [])"
    using C7_createAccount_idempotent [of testEvm testFactory emptyChain "0xA" 0] 1
    by (simp add: getAddress_test)
  then have 4: "createAccount testEvm testFactory deployedChain 0xA 0 = Inr (0xF0B, deployedChain, [])"
    by (simp add: createAccount_test)
  show ?thesis using 1 2 3 4 createAccount_test by simp
qed

section \<open>Properties of the service\<close>

lemma sendTransaction_submitted:
  "submitted (snd (sendTransaction E t s)) = submitted s @ [t]"
  by (simp add: sendTransaction_def split: prod.splits)

lemma waitMined_submitted:
  "submitted (snd (waitMined E tx s)) = submitted s"
  by (simp add: waitMined_def split: prod.splits)

lemma sendTransaction_Inr:
  "sendTransaction E t s = (Inr tx, s1) \<longleftrightarrow>
     (\<exists>w. send E (world s) t = (Inr tx, w) \<and> s1 = \<lparr>world = w, submitted = submitted s @ [t]\<rparr>)"
  by (cases "send E (world s) t"; cases "fst (send E (world s) t)")
     (auto simp: sendTransaction_def)

lemma waitMined_Inr:
  "waitMined E tx s = (Inr receipt, s1) \<longleftrightarrow>
     (\<exists>w. wait E (world s) tx = (Inr receipt, w) \<and> s1 = s\<lparr>world := w\<rparr>)"
  by (cases "wait E (world s) tx"; cases "fst (wait E (world s) tx)")
     (auto simp: waitMined_def)


lemma ensureAdminRegistered_zero_submitted:
  assumes "identityOwner E (world s) (address (adminWallet E)) = Inr AddressZero"
  shows "submitted (snd (ensureAdminRegistered E s))
     = submitted s @ [\<lparr>signer = address (adminWallet E),
                        invoked = changeOwner (address (adminWallet E)) (address (adminWallet E)),
                        gasLimit = None\<rparr>]"
proof -
  let ?t = "\<lparr>signer = address (adminWallet E),
             invoked = changeOwner (address (adminWallet E)) (address (adminWallet E)),
             gasLimit = None\<rparr>"
  obtain r s1 where st: "sendTransaction E ?t s = (r, s1)" by (cases "sendTransaction E ?t s")
  have s1: "submitted s1 = submitted s @ [?t]"
    using sendTransaction_submitted [of E ?t s] st by simp
  show ?thesis
  proof (cases r)
    case (Inl e)
    with assms st s1 show ?thesis by (simp add: ensureAdminRegistered_def)
  next
    case (Inr tx)
    obtain r2 s2 where w: "waitMined E tx s1 = (r2, s2)" by (cases "waitMined E tx s1")
    have "submitted s2 = submitted s1"
      using waitMined_submitted [of E tx s1] w by simp
    with assms st s1 Inr w show ?thesis
      by (cases r2) (simp_all add: ensureAdminRegistered_def)
  qed
qed











lemmas memory_simps =
  memoryEthers_def admin_def alice_def bob_def AddressZero_def recordedOwner_def
  sendTransaction_def waitMined_def memorySend_def memoryWait_def mine_def mayAct_def

lemma isAddress_alice: "isAddress memoryEthers (address alice)"
  by (simp add: memoryEthers_def alice_def ethersIsAddress_def hexAddressForm_def hexDigit_def
      mixedCase_def)

lemma extract_alice:
  "extractIdentity (isAddress memoryEthers) ''did:ethr:sepolia:0x0000000000000000000000000000000000000002''
     = Inr (address alice)"
proof -
  have "hexAddressForm (address alice)"
    by (simp add: alice_def hexAddressForm_def hexDigit_def)
  then have "extractIdentity (isAddress memoryEthers)
      (''did:ethr:'' @ ''sepolia'' @ '':'' @ address alice) = Inr (address alice)"
    using isAddress_alice by (rule extractIdentity_valid)
  then show ?thesis by (simp add: alice_def)
qed




lemma registerDidTry_did:
  "fst (registerDidTry E newWallet did s) = Inr result \<Longrightarrow>
     did' result = did \<and> address' result = address newWallet"
  by (auto simp: registerDidTry_def split: sum.splits prod.splits)

lemma registerDid_did:
  assumes "fst (registerDid E newWallet s) = Inr result"
  shows "did' result = ''did:ethr:sepolia:'' @ address newWallet
         \<and> address' result = address newWallet"
proof -
  obtain r s1 where e: "ensureAdminRegistered E s = (r, s1)"
    by (cases "ensureAdminRegistered E s")
  obtain r2 s2 where t: "registerDidTry E newWallet (''did:ethr:sepolia:'' @ address newWallet) s1 = (r2, s2)"
    by (cases "registerDidTry E newWallet (''did:ethr:sepolia:'' @ address newWallet) s1")
  from assms e t have "r2 = Inr result"
    by (cases r; cases r2) (simp_all add: registerDid_def Let_def)
  with t have "fst (registerDidTry E newWallet (''did:ethr:sepolia:'' @ address newWallet) s1) = Inr result"
    by simp
  then show ?thesis by (rule registerDidTry_did)
qed

lemma registerDidTry_primary:
  assumes "registryNonce E (world s1) (address newWallet) = Inr n"
    and "solidityKeccak256 E
           [Bytes1V ''0x19'', Bytes1V ''0x00'', AddressV (registryAddress E), Uint256V n,
            AddressV (address newWallet), StringV ''changeOwner'',
            AddressV (address (adminWallet E))] = Inr messageHash"
    and "signDigest E (privateKey newWallet) messageHash = Inr (v, r, sigS)"
    and "send E (world s1)
           \<lparr>signer = address (adminWallet E),
            invoked = changeOwnerSigned (address newWallet) v r sigS (address (adminWallet E)),
            gasLimit = None\<rparr> = (Inr tx, w2)"
    and "wait E w2 tx = (Inr receipt, w3)"
  shows "registerDidTry E newWallet did s1
     = (Inr \<lparr>did' = did, transactionHash' = receipt, address' = address newWallet,
             publicKey' = publicKey newWallet, privateKey' = privateKey newWallet,
             note' = RegistrationComplete\<rparr>,
        snd (attachPublicKey E newWallet
          \<lparr>world = w3,
           submitted = submitted s1 @
             [\<lparr>signer = address (adminWallet E),
               invoked = changeOwnerSigned (address newWallet) v r sigS (address (adminWallet E)),
               gasLimit = None\<rparr>]\<rparr>))"
  using assms by (simp add: registerDidTry_def sendTransaction_def waitMined_def)

lemma registerDid_unfold:
  "ensureAdminRegistered E s = (Inr u, s1) \<Longrightarrow>
   registerDid E newWallet s
     = (case registerDidTry E newWallet (''did:ethr:sepolia:'' @ address newWallet) s1 of
          (Inl e, s2) \<Rightarrow> (Inl (RegisterDidFailed e), s2)
        | (Inr result, s2) \<Rightarrow> (Inr result, s2))"
  by (simp add: registerDid_def Let_def)

text \<open>
  Claim C3. Whatever \<open>registerDid\<close> returns has \<open>did\<close> equal to
  \<open>did:ethr:sepolia:\<close> followed by the address of the freshly generated wallet, and
  that address as \<open>address\<close>. Once the bootstrap check, the nonce read, the hashing,
  the signing and the sending and mining of \<open>changeOwnerSigned\<close> have succeeded,
  \<open>registerDid\<close> returns the registration result built from the wallet and that
  receipt. The statement assumes nothing about the attachment of the public key: its
  outcome is dropped, and only the state it leaves behind is kept.
\<close>

theorem C3_registerDid:
  "(fst (registerDid E newWallet s) = Inr result \<longrightarrow>
      did' result = ''did:ethr:sepolia:'' @ address newWallet
      \<and> address' result = address newWallet)
   \<and> (ensureAdminRegistered E s = (Inr (), s1)
       \<and> registryNonce E (world s1) (address newWallet) = Inr n
       \<and> solidityKeccak256 E
            [Bytes1V ''0x19'', Bytes1V ''0x00'', AddressV (registryAddress E), Uint256V n,
             AddressV (address newWallet), StringV ''changeOwner'',
             AddressV (address (adminWallet E))] = Inr messageHash
       \<and> signDigest E (privateKey newWallet) messageHash = Inr (v, r, sigS)
       \<and> send E (world s1)
            \<lparr>signer = address (adminWallet E),
             invoked = changeOwnerSigned (address newWallet) v r sigS (address (adminWallet E)),
             gasLimit = None\<rparr> = (Inr tx, w2)
       \<and> wait E w2 tx = (Inr receipt, w3)
       \<longrightarrow>
       fst (registerDid E newWallet s)
         = Inr \<lparr>did' = ''did:ethr:sepolia:'' @ address newWallet, transactionHash' = receipt,
                address' = address newWallet, publicKey' = publicKey newWallet,
                privateKey' = privateKey newWallet, note' = RegistrationComplete\<rparr>
       \<and> snd (registerDid E newWallet s)
         = snd (attachPublicKey E newWallet
             \<lparr>world = w3,
              submitted = submitted s1 @
                [\<lparr>signer = address (adminWallet E),
                  invoked = changeOwnerSigned (address newWallet) v r sigS (address (adminWallet E)),
                  gasLimit = None\<rparr>]\<rparr>))"
proof (intro conjI impI)
  assume "fst (registerDid E newWallet s) = Inr result"
  then have *: "did' result = ''did:ethr:sepolia:'' @ address newWallet
         \<and> address' result = address newWallet"
    by (rule registerDid_did)
  from * show "did' result = ''did:ethr:sepolia:'' @ address newWallet" by simp
  from * show "address' result = address newWallet" by simp
next
  assume a: "ensureAdminRegistered E s = (Inr (), s1)
       \<and> registryNonce E (world s1) (address newWallet) = Inr n
       \<and> solidityKeccak256 E
            [Bytes1V ''0x19'', Bytes1V ''0x00'', AddressV (registryAddress E), Uint256V n,
             AddressV (address newWallet), StringV ''changeOwner'',
             AddressV (address (adminWallet E))] = Inr messageHash
       \<and> signDigest E (privateKey newWallet) messageHash = Inr (v, r, sigS)
       \<and> send E (world s1)
            \<lparr>signer = address (adminWallet E),
             invoked = changeOwnerSigned (address newWallet) v r sigS (address (adminWallet E)),
             gasLimit = None\<rparr> = (Inr tx, w2)
       \<and> wait E w2 tx = (Inr receipt, w3)"
  then have t: "registerDidTry E newWallet (''did:ethr:sepolia:'' @ address newWallet) s1
     = (Inr \<lparr>did' = ''did:ethr:sepolia:'' @ address newWallet, transactionHash' = receipt,
             address' = address newWallet,
             publicKey' = publicKey newWallet, privateKey' = privateKey newWallet,
             note' = RegistrationComplete\<rparr>,
        snd (attachPublicKey E newWallet
          \<lparr>world = w3,
           submitted = submitted s1 @
             [\<lparr>signer = address (adminWallet E),
               invoked = changeOwnerSigned (address newWallet) v r sigS (address (adminWallet E)),
               gasLimit = None\<rparr>]\<rparr>))"
    using registerDidTry_primary [of E s1 newWallet n messageHash v r sigS tx w2 receipt w3]
    by blast
  from a have e: "ensureAdminRegistered E s = (Inr (), s1)" by simp
  show "fst (registerDid E newWallet s)
         = Inr \<lparr>did' = ''did:ethr:sepolia:'' @ address newWallet, transactionHash' = receipt,
                address' = address newWallet, publicKey' = publicKey newWallet,
                privateKey' = privateKey newWallet, note' = RegistrationComplete\<rparr>"
    unfolding registerDid_unfold [OF e] t by simp
  show "snd (registerDid E newWallet s)
         = snd (attachPublicKey E newWallet
             \<lparr>world = w3,
              submitted = submitted s1 @
                [\<lparr>signer = address (adminWallet E),
                  invoked = changeOwnerSigned (address newWallet) v r sigS (address (adminWallet E)),
                  gasLimit = None\<rparr>]\<rparr>)"
    unfolding registerDid_unfold [OF e] t by simp
qed

lemmas refusing_simps =
  refusingEthers_def memoryEthers_def admin_def alice_def bob_def AddressZero_def recordedOwner_def
  sendTransaction_def waitMined_def memorySend_def memoryWait_def mine_def mayAct_def

theorem C3_registerDid_witness:
  "ensureAdminRegistered refusingEthers adminRegistered = (Inr (), adminRegistered)
   \<and> registryNonce refusingEthers (world adminRegistered) (address bob) = Inr 0
   \<and> solidityKeccak256 refusingEthers
        [Bytes1V ''0x19'', Bytes1V ''0x00'', AddressV (registryAddress refusingEthers), Uint256V 0,
         AddressV (address bob), StringV ''changeOwner'',
         AddressV (address (adminWallet refusingEthers))] = Inr ''0xd1''
   \<and> signDigest refusingEthers (privateKey bob) ''0xd1'' = Inr (27, ''0x51'', ''0x52'')
   \<and> send refusingEthers (world adminRegistered)
        \<lparr>signer = address (adminWallet refusingEthers),
         invoked = changeOwnerSigned (address bob) 27 ''0x51'' ''0x52''
                     (address (adminWallet refusingEthers)),
         gasLimit = None\<rparr>
       = (Inr ''0xf00d'',
          \<lparr>owners = [(address admin, address admin)],
           pendingTx = Some \<lparr>signer = address admin,
             invoked = changeOwnerSigned (address bob) 27 ''0x51'' ''0x52'' (address admin),
             gasLimit = None\<rparr>\<rparr>)
   \<and> wait refusingEthers
        \<lparr>owners = [(address admin, address admin)],
         pendingTx = Some \<lparr>signer = address admin,
           invoked = changeOwnerSigned (address bob) 27 ''0x51'' ''0x52'' (address admin),
           gasLimit = None\<rparr>\<rparr> ''0xf00d''
       = (Inr ''0xf00d'',
          \<lparr>owners = [(address bob, address admin), (address admin, address admin)],
           pendingTx = None\<rparr>)
   \<and> fst (attachPublicKey refusingEthers bob
        \<lparr>world = \<lparr>owners = [(address bob, address admin), (address admin, address admin)],
                  pendingTx = None\<rparr>,
         submitted = [\<lparr>signer = address admin,
           invoked = changeOwnerSigned (address bob) 27 ''0x51'' ''0x52'' (address admin),
           gasLimit = None\<rparr>]\<rparr>)
       = Inl (Thrown ''insufficient funds'')
   \<and> fst (registerDid refusingEthers bob adminRegistered)
       = Inr \<lparr>did' = ''did:ethr:sepolia:0x0000000000000000000000000000000000000003'',
              transactionHash' = ''0xf00d'',
              address' = ''0x0000000000000000000000000000000000000003'',
              publicKey' = ''0x04a3'', privateKey' = ''0xa3'', note' = RegistrationComplete\<rparr>"
proof -
  let ?t = "\<lparr>signer = address admin,
             invoked = changeOwnerSigned (address bob) 27 ''0x51'' ''0x52'' (address admin),
             gasLimit = None\<rparr>"
  let ?w2 = "\<lparr>owners = [(address admin, address admin)], pendingTx = Some ?t\<rparr>"
  let ?w3 = "\<lparr>owners = [(address bob, address admin), (address admin, address admin)],
              pendingTx = None\<rparr>"
  have a: "adminWallet refusingEthers = admin" by (simp add: refusingEthers_def memoryEthers_def)
  have 1: "ensureAdminRegistered refusingEthers adminRegistered = (Inr (), adminRegistered)"
    by (simp add: ensureAdminRegistered_def refusing_simps adminRegistered_def)
  have 2: "registryNonce refusingEthers (world adminRegistered) (address bob) = Inr 0"
    by (simp add: refusing_simps)
  have 3: "solidityKeccak256 refusingEthers
        [Bytes1V ''0x19'', Bytes1V ''0x00'', AddressV (registryAddress refusingEthers), Uint256V 0,
         AddressV (address bob), StringV ''changeOwner'',
         AddressV (address (adminWallet refusingEthers))] = Inr ''0xd1''"
    by (simp add: refusingEthers_def memoryEthers_def)
  have 4: "signDigest refusingEthers (privateKey bob) ''0xd1'' = Inr (27, ''0x51'', ''0x52'')"
    by (simp add: refusingEthers_def memoryEthers_def)
  have 5: "send refusingEthers (world adminRegistered)
        \<lparr>signer = address (adminWallet refusingEthers),
         invoked = changeOwnerSigned (address bob) 27 ''0x51'' ''0x52''
                     (address (adminWallet refusingEthers)),
         gasLimit = None\<rparr> = (Inr ''0xf00d'', ?w2)"
    unfolding a by (simp add: refusingEthers_def memoryEthers_def memorySend_def adminRegistered_def)
  have 6: "wait refusingEthers ?w2 ''0xf00d'' = (Inr ''0xf00d'', ?w3)"
    by (simp add: refusingEthers_def memoryEthers_def memoryWait_def mine_def)
  have f: "formatBytes32String refusingEthers ''did/pub/secp256k1/veriKey''
       = Inr ''0x6469642f7075622f736563703235366b312f766572694b657900000000000000''"
    by (simp add: refusingEthers_def memoryEthers_def) code_simp
  have u: "toUtf8Bytes refusingEthers (publicKey bob) = Inr ''0x04a3''"
    by (simp add: refusingEthers_def memoryEthers_def bob_def) code_simp
  have 7: "fst (attachPublicKey refusingEthers bob \<lparr>world = ?w3, submitted = [?t]\<rparr>)
       = Inl (Thrown ''insufficient funds'')"
    by (simp add: attachPublicKey_def f u sendTransaction_def)
       (simp add: refusingEthers_def memoryEthers_def)
  have 8: "fst (registerDid refusingEthers bob adminRegistered)
       = Inr \<lparr>did' = ''did:ethr:sepolia:'' @ address bob,
              transactionHash' = ''0xf00d'',
              address' = address bob,
              publicKey' = publicKey bob, privateKey' = privateKey bob,
              note' = RegistrationComplete\<rparr>"
    using C3_registerDid [of refusingEthers bob adminRegistered _ adminRegistered 0 "''0xd1''"
        27 "''0x51''" "''0x52''" "''0xf00d''" ?w2 "''0xf00d''" ?w3] 1 2 3 4 5 6
    by blast
  have 9: "fst (registerDid refusingEthers bob adminRegistered)
       = Inr \<lparr>did' = ''did:ethr:sepolia:0x0000000000000000000000000000000000000003'',
              transactionHash' = ''0xf00d'',
              address' = ''0x0000000000000000000000000000000000000003'',
              publicKey' = ''0x04a3'', privateKey' = ''0xa3'', note' = RegistrationComplete\<rparr>"
    using 8 by (simp add: bob_def)
  show ?thesis using 1 2 3 4 5 [unfolded a] 6 7 9 unfolding a by blast
qed

lemma addAttribute_unfold:
  "ensureAdminRegistered E s = (Inr u, s1) \<Longrightarrow>
   addAttribute E did attributeName attributeValue s
     = (case addAttributeTry E did attributeName attributeValue s1 of
          (Inl e, s2) \<Rightarrow> (Inl (AddAttributeFailed e), s2)
        | (Inr result, s2) \<Rightarrow> (Inr result, s2))"
  by (simp add: addAttribute_def)

lemma addAttributeTry_notOwner:
  assumes "extractIdentity (isAddress E) did = Inr identity"
    and "identityOwner E (world s1) identity = Inr currentOwner"
    and "toLowerCase currentOwner \<noteq> toLowerCase (address (adminWallet E))"
  shows "addAttributeTry E did attributeName attributeValue s1
     = (Inl (NotOwner (address (adminWallet E)) identity currentOwner), s1)"
  using assms by (simp add: addAttributeTry_def)

lemma addAttributeTry_success:
  assumes "extractIdentity (isAddress E) did = Inr identity"
    and "identityOwner E (world s1) identity = Inr currentOwner"
    and "toLowerCase currentOwner = toLowerCase (address (adminWallet E))"
    and "length attributeName \<le> 31"
    and "formatBytes32String E attributeName = Inr name"
    and "toUtf8Bytes E attributeValue = Inr val"
    and "send E (world s1)
           \<lparr>signer = address (adminWallet E),
            invoked = setAttribute identity name val 31536000,
            gasLimit = Some 300000\<rparr> = (Inr tx, w2)"
    and "wait E w2 tx = (Inr receipt, w3)"
  shows "addAttributeTry E did attributeName attributeValue s1
     = (Inr \<lparr>did' = did, transactionHash' = receipt, success' = True\<rparr>,
        \<lparr>world = w3,
         submitted = submitted s1 @
           [\<lparr>signer = address (adminWallet E),
             invoked = setAttribute identity name val 31536000,
             gasLimit = Some 300000\<rparr>]\<rparr>)"
  using assms by (simp add: addAttributeTry_def sendTransaction_def waitMined_def)

lemma addAttributeTry_tooLong:
  assumes "length attributeName > 31"
  shows "\<exists>e. addAttributeTry E did attributeName attributeValue s1 = (Inl e, s1)"
  using assms by (auto simp: addAttributeTry_def split: sum.splits)

lemma addAttributeTry_tooLong_error:
  assumes "length attributeName > 31"
    and "extractIdentity (isAddress E) did = Inr identity"
    and "identityOwner E (world s1) identity = Inr currentOwner"
    and "toLowerCase currentOwner = toLowerCase (address (adminWallet E))"
  shows "addAttributeTry E did attributeName attributeValue s1
     = (Inl (AttributeNameTooLong attributeName), s1)"
  using assms by (simp add: addAttributeTry_def)

lemma ensureAdminRegistered_submitted_cases:
  "submitted (snd (ensureAdminRegistered E s)) = submitted s
   \<or> submitted (snd (ensureAdminRegistered E s))
       = submitted s @ [\<lparr>signer = address (adminWallet E),
                          invoked = changeOwner (address (adminWallet E)) (address (adminWallet E)),
                          gasLimit = None\<rparr>]"
proof (cases "identityOwner E (world s) (address (adminWallet E))")
  case (Inl m)
  then show ?thesis by (simp add: ensureAdminRegistered_def)
next
  case (Inr currentOwner)
  show ?thesis
  proof (cases "currentOwner = AddressZero")
    case True
    with Inr show ?thesis
      using ensureAdminRegistered_zero_submitted [of E s] by simp
  next
    case False
    with Inr show ?thesis by (simp add: ensureAdminRegistered_def)
  qed
qed

text \<open>
  The encoders: a string is never longer than its UTF-8 encoding, and
  \<open>formatBytes32String\<close> of \<open>ethers\<close> accepts exactly the strings of at most 31 bytes.
  A name the library rejects makes \<open>addAttribute\<close> throw the error of the library.
\<close>

lemma utf8Unit_length: "1 \<le> length (utf8Unit c)"
  by (simp add: utf8Unit_def Let_def)

lemma length_le_utf8: "length str \<le> length (ethersToUtf8Bytes str)"
proof (induction str)
  case Nil
  then show ?case by (simp add: ethersToUtf8Bytes_def)
next
  case (Cons c str)
  then show ?case
    using utf8Unit_length [of c] by (simp add: ethersToUtf8Bytes_def)
qed

lemma ethersFormatBytes32String_accepts:
  "(\<exists>name. ethersFormatBytes32String str = Inr name) \<longleftrightarrow> length (ethersToUtf8Bytes str) \<le> 31"
  by (auto simp: ethersFormatBytes32String_def Let_def)

lemma addAttributeTry_rejected_by_library:
  assumes "extractIdentity (isAddress E) did = Inr identity"
    and "identityOwner E (world s1) identity = Inr currentOwner"
    and "toLowerCase currentOwner = toLowerCase (address (adminWallet E))"
    and "length attributeName \<le> 31"
    and "formatBytes32String E attributeName = Inl m"
  shows "addAttributeTry E did attributeName attributeValue s1 = (Inl (Thrown m), s1)"
  using assms by (simp add: addAttributeTry_def)

text \<open>
  Claim C4, as the code has it. Let the bootstrap check have succeeded, the DID have
  given an address, and the registry have reported the owner of that address. When the
  owner differs from the address of the admin wallet (compared without regard to letter
  case, as the code does), \<open>addAttribute\<close> throws the authorization error, whose
  message carries the address of the admin wallet, the identity and the current owner,
  and nothing has been submitted after the check. When the owner is the admin wallet,
  the name has at most 31 characters and \<open>formatBytes32String\<close> accepts it (\<open>ethers\<close>
  accepts at most 31 bytes of UTF-8), \<open>toUtf8Bytes\<close> encodes the value, and the provider
  sends and mines the \<open>setAttribute\<close> transaction, \<open>addAttribute\<close> returns the object
  with the transaction hash of that receipt, and that transaction is the one submitted.
\<close>

theorem C4_addAttribute_ownership:
  "ensureAdminRegistered E s = (Inr (), s1)
   \<and> extractIdentity (isAddress E) did = Inr identity
   \<and> identityOwner E (world s1) identity = Inr currentOwner
   \<longrightarrow>
   (toLowerCase currentOwner \<noteq> toLowerCase (address (adminWallet E)) \<longrightarrow>
      addAttribute E did attributeName attributeValue s
        = (Inl (AddAttributeFailed (NotOwner (address (adminWallet E)) identity currentOwner)), s1))
   \<and> (toLowerCase currentOwner = toLowerCase (address (adminWallet E))
       \<and> length attributeName \<le> 31
       \<and> formatBytes32String E attributeName = Inr name
       \<and> toUtf8Bytes E attributeValue = Inr val
       \<and> send E (world s1)
            \<lparr>signer = address (adminWallet E),
             invoked = setAttribute identity name val 31536000,
             gasLimit = Some 300000\<rparr> = (Inr tx, w2)
       \<and> wait E w2 tx = (Inr receipt, w3)
       \<longrightarrow>
       addAttribute E did attributeName attributeValue s
         = (Inr \<lparr>did' = did, transactionHash' = receipt, success' = True\<rparr>,
            \<lparr>world = w3,
             submitted = submitted s1 @
               [\<lparr>signer = address (adminWallet E),
                 invoked = setAttribute identity name val 31536000,
                 gasLimit = Some 300000\<rparr>]\<rparr>))"
proof (intro impI conjI)
  assume a: "ensureAdminRegistered E s = (Inr (), s1)
   \<and> extractIdentity (isAddress E) did = Inr identity
   \<and> identityOwner E (world s1) identity = Inr currentOwner"
  then have e: "ensureAdminRegistered E s = (Inr (), s1)" by simp
  {
    assume "toLowerCase currentOwner \<noteq> toLowerCase (address (adminWallet E))"
    with a have "addAttributeTry E did attributeName attributeValue s1
       = (Inl (NotOwner (address (adminWallet E)) identity currentOwner), s1)"
      using addAttributeTry_notOwner by blast
    then show "addAttribute E did attributeName attributeValue s
        = (Inl (AddAttributeFailed (NotOwner (address (adminWallet E)) identity currentOwner)), s1)"
      unfolding addAttribute_unfold [OF e] by simp
  }
  {
    assume "toLowerCase currentOwner = toLowerCase (address (adminWallet E))
       \<and> length attributeName \<le> 31
       \<and> formatBytes32String E attributeName = Inr name
       \<and> toUtf8Bytes E attributeValue = Inr val
       \<and> send E (world s1)
            \<lparr>signer = address (adminWallet E),
             invoked = setAttribute identity name val 31536000,
             gasLimit = Some 300000\<rparr> = (Inr tx, w2)
       \<and> wait E w2 tx = (Inr receipt, w3)"
    with a have "addAttributeTry E did attributeName attributeValue s1
     = (Inr \<lparr>did' = did, transactionHash' = receipt, success' = True\<rparr>,
        \<lparr>world = w3,
         submitted = submitted s1 @
           [\<lparr>signer = address (adminWallet E),
             invoked = setAttribute identity name val 31536000,
             gasLimit = Some 300000\<rparr>]\<rparr>)"
      using addAttributeTry_success [of E did identity s1 currentOwner attributeName name
          attributeValue val tx w2 receipt w3] by blast
    then show "addAttribute E did attributeName attributeValue s
         = (Inr \<lparr>did' = did, transactionHash' = receipt, success' = True\<rparr>,
            \<lparr>world = w3,
             submitted = submitted s1 @
               [\<lparr>signer = address (adminWallet E),
                 invoked = setAttribute identity name val 31536000,
                 gasLimit = Some 300000\<rparr>]\<rparr>)"
      unfolding addAttribute_unfold [OF e] by simp
  }
qed

text \<open>
  Claim C5, as the code has it. For an attribute name of more than 31 characters
  \<open>addAttribute\<close> always throws and leaves the state exactly as the bootstrap check
  left it: no \<open>setAttribute\<close> is submitted, and the only transaction the call can have
  submitted is \<open>changeOwner(admin, admin)\<close> of the check. The error is the length
  violation when the check succeeded, the DID gave an address and the admin wallet is
  the current owner of it.
\<close>

theorem C5_long_name:
  "length attributeName > 31 \<longrightarrow>
     (\<exists>e. fst (addAttribute E did attributeName attributeValue s) = Inl e)
     \<and> snd (addAttribute E did attributeName attributeValue s) = snd (ensureAdminRegistered E s)
     \<and> (submitted (snd (addAttribute E did attributeName attributeValue s)) = submitted s
         \<or> submitted (snd (addAttribute E did attributeName attributeValue s))
             = submitted s @ [\<lparr>signer = address (adminWallet E),
                 invoked = changeOwner (address (adminWallet E)) (address (adminWallet E)),
                 gasLimit = None\<rparr>])
     \<and> (ensureAdminRegistered E s = (Inr (), s1)
         \<and> extractIdentity (isAddress E) did = Inr identity
         \<and> identityOwner E (world s1) identity = Inr currentOwner
         \<and> toLowerCase currentOwner = toLowerCase (address (adminWallet E))
         \<longrightarrow> fst (addAttribute E did attributeName attributeValue s)
               = Inl (AddAttributeFailed (AttributeNameTooLong attributeName)))"
proof (intro impI)
  assume long: "length attributeName > 31"
  obtain r s0 where e: "ensureAdminRegistered E s = (r, s0)"
    by (cases "ensureAdminRegistered E s")
  have fs: "(\<exists>e. fst (addAttribute E did attributeName attributeValue s) = Inl e)
     \<and> snd (addAttribute E did attributeName attributeValue s) = snd (ensureAdminRegistered E s)"
  proof (cases r)
    case (Inl x)
    with e show ?thesis by (simp add: addAttribute_def)
  next
    case (Inr u)
    obtain x where "addAttributeTry E did attributeName attributeValue s0 = (Inl x, s0)"
      using addAttributeTry_tooLong [OF long] by blast
    with e Inr show ?thesis by (simp add: addAttribute_def)
  qed
  then have sub: "submitted (snd (addAttribute E did attributeName attributeValue s)) = submitted s
         \<or> submitted (snd (addAttribute E did attributeName attributeValue s))
             = submitted s @ [\<lparr>signer = address (adminWallet E),
                 invoked = changeOwner (address (adminWallet E)) (address (adminWallet E)),
                 gasLimit = None\<rparr>]"
    using ensureAdminRegistered_submitted_cases [of E s] by simp
  have err: "fst (addAttribute E did attributeName attributeValue s)
               = Inl (AddAttributeFailed (AttributeNameTooLong attributeName))"
    if h: "ensureAdminRegistered E s = (Inr (), s1)
         \<and> extractIdentity (isAddress E) did = Inr identity
         \<and> identityOwner E (world s1) identity = Inr currentOwner
         \<and> toLowerCase currentOwner = toLowerCase (address (adminWallet E))"
  proof -
    from h have e1: "ensureAdminRegistered E s = (Inr (), s1)" by simp
    from h long have "addAttributeTry E did attributeName attributeValue s1
       = (Inl (AttributeNameTooLong attributeName), s1)"
      using addAttributeTry_tooLong_error by blast
    then show ?thesis unfolding addAttribute_unfold [OF e1] by simp
  qed
  show "(\<exists>e. fst (addAttribute E did attributeName attributeValue s) = Inl e)
     \<and> snd (addAttribute E did attributeName attributeValue s) = snd (ensureAdminRegistered E s)
     \<and> (submitted (snd (addAttribute E did attributeName attributeValue s)) = submitted s
         \<or> submitted (snd (addAttribute E did attributeName attributeValue s))
             = submitted s @ [\<lparr>signer = address (adminWallet E),
                 invoked = changeOwner (address (adminWallet E)) (address (adminWallet E)),
                 gasLimit = None\<rparr>])
     \<and> (ensureAdminRegistered E s = (Inr (), s1)
         \<and> extractIdentity (isAddress E) did = Inr identity
         \<and> identityOwner E (world s1) identity = Inr currentOwner
         \<and> toLowerCase currentOwner = toLowerCase (address (adminWallet E))
         \<longrightarrow> fst (addAttribute E did attributeName attributeValue s)
               = Inl (AddAttributeFailed (AttributeNameTooLong attributeName)))"
    using fs sub err by blast
qed

lemma extract_admin:
  "extractIdentity (isAddress memoryEthers) ''did:ethr:sepolia:0x0000000000000000000000000000000000000001''
     = Inr (address admin)"
proof -
  have "hexAddressForm (address admin)"
    by (simp add: admin_def hexAddressForm_def hexDigit_def)
  moreover have "isAddress memoryEthers (address admin)"
    by (simp add: memoryEthers_def admin_def ethersIsAddress_def hexAddressForm_def hexDigit_def
        mixedCase_def)
  ultimately have "extractIdentity (isAddress memoryEthers)
      (''did:ethr:'' @ ''sepolia'' @ '':'' @ address admin) = Inr (address admin)"
    by (rule extractIdentity_valid)
  then show ?thesis by (simp add: admin_def)
qed

lemma extract_bob:
  "extractIdentity (isAddress memoryEthers) ''did:ethr:sepolia:0x0000000000000000000000000000000000000003''
     = Inr (address bob)"
proof -
  have "hexAddressForm (address bob)"
    by (simp add: bob_def hexAddressForm_def hexDigit_def)
  moreover have "isAddress memoryEthers (address bob)"
    by (simp add: memoryEthers_def bob_def ethersIsAddress_def hexAddressForm_def hexDigit_def
        mixedCase_def)
  ultimately have "extractIdentity (isAddress memoryEthers)
      (''did:ethr:'' @ ''sepolia'' @ '':'' @ address bob) = Inr (address bob)"
    by (rule extractIdentity_valid)
  then show ?thesis by (simp add: bob_def)
qed

lemma adminWallet_memory: "adminWallet memoryEthers = admin"
  by (simp add: memoryEthers_def)

lemma ensure_aliceManaged:
  "ensureAdminRegistered memoryEthers aliceManaged = (Inr (), aliceManaged)"
  by (simp add: ensureAdminRegistered_def memory_simps aliceManaged_def)

lemma owner_of_bob:
  "identityOwner memoryEthers (world aliceManaged) (address bob) = Inr (address bob)"
  by (simp add: memory_simps aliceManaged_def)

lemma owner_of_alice:
  "identityOwner memoryEthers (world aliceManaged) (address alice) = Inr (address admin)"
  by (simp add: memory_simps aliceManaged_def)

lemma lower_bob_admin:
  "toLowerCase (address bob) \<noteq> toLowerCase (address (adminWallet memoryEthers))"
  by (simp add: toLowerCase_def lowerChar_def memory_simps)

theorem C4_addAttribute_witness:
  "ensureAdminRegistered memoryEthers aliceManaged = (Inr (), aliceManaged)
   \<and> extractIdentity (isAddress memoryEthers)
        ''did:ethr:sepolia:0x0000000000000000000000000000000000000003'' = Inr (address bob)
   \<and> identityOwner memoryEthers (world aliceManaged) (address bob) = Inr (address bob)
   \<and> toLowerCase (address bob) \<noteq> toLowerCase (address (adminWallet memoryEthers))
   \<and> addAttribute memoryEthers ''did:ethr:sepolia:0x0000000000000000000000000000000000000003''
        ''email'' ''bob@example.org'' aliceManaged
       = (Inl (AddAttributeFailed (NotOwner (address admin) (address bob) (address bob))),
          aliceManaged)
   \<and> extractIdentity (isAddress memoryEthers)
        ''did:ethr:sepolia:0x0000000000000000000000000000000000000002'' = Inr (address alice)
   \<and> identityOwner memoryEthers (world aliceManaged) (address alice) = Inr (address admin)
   \<and> length ''email'' \<le> 31
   \<and> addAttribute memoryEthers ''did:ethr:sepolia:0x0000000000000000000000000000000000000002''
        ''email'' ''alice@example.org'' aliceManaged
       = (Inr \<lparr>did' = ''did:ethr:sepolia:0x0000000000000000000000000000000000000002'',
               transactionHash' = ''0xf00d'', success' = True\<rparr>,
          \<lparr>world = world aliceManaged,
           submitted = submitted aliceManaged @ [\<lparr>signer = address admin,
             invoked = setAttribute (address alice)
               ''0x656d61696c000000000000000000000000000000000000000000000000000000''
               ''alice@example.org'' 31536000,
             gasLimit = Some 300000\<rparr>]\<rparr>)"
proof -
  let ?t = "\<lparr>signer = address (adminWallet memoryEthers),
             invoked = setAttribute (address alice)
               ''0x656d61696c000000000000000000000000000000000000000000000000000000''
               ''alice@example.org'' 31536000,
             gasLimit = Some 300000\<rparr>"
  let ?w2 = "(world aliceManaged)\<lparr>pendingTx := Some ?t\<rparr>"
  have pb: "ensureAdminRegistered memoryEthers aliceManaged = (Inr (), aliceManaged)
     \<and> extractIdentity (isAddress memoryEthers)
          ''did:ethr:sepolia:0x0000000000000000000000000000000000000003'' = Inr (address bob)
     \<and> identityOwner memoryEthers (world aliceManaged) (address bob) = Inr (address bob)"
    using ensure_aliceManaged extract_bob owner_of_bob by (intro conjI)
  have 1: "addAttribute memoryEthers ''did:ethr:sepolia:0x0000000000000000000000000000000000000003''
        ''email'' ''bob@example.org'' aliceManaged
       = (Inl (AddAttributeFailed
            (NotOwner (address (adminWallet memoryEthers)) (address bob) (address bob))),
          aliceManaged)"
    using C4_addAttribute_ownership [THEN mp, OF pb, THEN conjunct1, THEN mp, OF lower_bob_admin] .
  have pa: "ensureAdminRegistered memoryEthers aliceManaged = (Inr (), aliceManaged)
     \<and> extractIdentity (isAddress memoryEthers)
          ''did:ethr:sepolia:0x0000000000000000000000000000000000000002'' = Inr (address alice)
     \<and> identityOwner memoryEthers (world aliceManaged) (address alice) = Inr (address admin)"
    using ensure_aliceManaged extract_alice owner_of_alice by (intro conjI)
  have l: "toLowerCase (address admin) = toLowerCase (address (adminWallet memoryEthers))"
    by (simp only: adminWallet_memory)
  have n: "length ''email'' \<le> 31" by simp
  have f: "formatBytes32String memoryEthers ''email''
      = Inr ''0x656d61696c000000000000000000000000000000000000000000000000000000''"
    by (simp add: memoryEthers_def) code_simp
  have u: "toUtf8Bytes memoryEthers ''alice@example.org'' = Inr ''alice@example.org''"
    by (simp add: memoryEthers_def) code_simp
  have s: "send memoryEthers (world aliceManaged) ?t = (Inr ''0xf00d'', ?w2)"
    by (simp add: memoryEthers_def memorySend_def)
  have m: "mine ?w2 ?t = Some ?w2"
    by (simp add: memory_simps aliceManaged_def)
  have w: "wait memoryEthers ?w2 ''0xf00d'' = (Inr ''0xf00d'', world aliceManaged)"
    by (simp add: memoryEthers_def memoryWait_def m [unfolded adminWallet_memory])
       (simp add: aliceManaged_def)
  have q: "toLowerCase (address admin) = toLowerCase (address (adminWallet memoryEthers))
       \<and> length ''email'' \<le> 31
       \<and> formatBytes32String memoryEthers ''email''
           = Inr ''0x656d61696c000000000000000000000000000000000000000000000000000000''
       \<and> toUtf8Bytes memoryEthers ''alice@example.org'' = Inr ''alice@example.org''
       \<and> send memoryEthers (world aliceManaged) ?t = (Inr ''0xf00d'', ?w2)
       \<and> wait memoryEthers ?w2 ''0xf00d'' = (Inr ''0xf00d'', world aliceManaged)"
    using l n f u s w by (intro conjI)
  have 2: "addAttribute memoryEthers ''did:ethr:sepolia:0x0000000000000000000000000000000000000002''
        ''email'' ''alice@example.org'' aliceManaged
       = (Inr \<lparr>did' = ''did:ethr:sepolia:0x0000000000000000000000000000000000000002'',
               transactionHash' = ''0xf00d'', success' = True\<rparr>,
          \<lparr>world = world aliceManaged, submitted = submitted aliceManaged @ [?t]\<rparr>)"
    using C4_addAttribute_ownership [THEN mp, OF pa, THEN conjunct2, THEN mp, OF q] .
  show ?thesis
    using ensure_aliceManaged extract_bob owner_of_bob lower_bob_admin
      1 [unfolded adminWallet_memory] extract_alice owner_of_alice n 2 [unfolded adminWallet_memory]
    by (intro conjI)
qed

lemma length_longName: "length longName > 31"
  by (simp add: longName_def)

lemma lower_admin:
  "toLowerCase (address admin) = toLowerCase (address (adminWallet memoryEthers))"
  by (simp only: adminWallet_memory)

lemma length_accentedName: "length accentedName = 20"
  by (simp add: accentedName_def)

lemma utf8_accentedName: "length (ethersToUtf8Bytes accentedName) = 40"
  by code_simp

lemma format_accentedName:
  "formatBytes32String memoryEthers accentedName
     = Inl ''bytes32 string must be less than 32 bytes''"
  by (simp add: memoryEthers_def) code_simp

text \<open>
  Claim C4 as stated fails: the admin wallet owns the identity and the name has 20
  characters, within the limit of 31 that the code checks, but each character takes two
  bytes in UTF-8, \<open>formatBytes32String\<close> rejects the 40 bytes, and \<open>addAttribute\<close>
  throws instead of returning a transaction hash.
\<close>

theorem C4_counterexample:
  "length accentedName \<le> 31
   \<and> ensureAdminRegistered memoryEthers aliceManaged = (Inr (), aliceManaged)
   \<and> extractIdentity (isAddress memoryEthers)
        ''did:ethr:sepolia:0x0000000000000000000000000000000000000002'' = Inr (address alice)
   \<and> identityOwner memoryEthers (world aliceManaged) (address alice) = Inr (address admin)
   \<and> address admin = address (adminWallet memoryEthers)
   \<and> length (ethersToUtf8Bytes accentedName) = 40
   \<and> addAttribute memoryEthers ''did:ethr:sepolia:0x0000000000000000000000000000000000000002''
        accentedName ''v'' aliceManaged
       = (Inl (AddAttributeFailed (Thrown ''bytes32 string must be less than 32 bytes'')),
          aliceManaged)"
proof -
  have n: "length accentedName \<le> 31" by (simp add: length_accentedName)
  have a: "address admin = address (adminWallet memoryEthers)"
    by (simp only: adminWallet_memory)
  have t: "addAttributeTry memoryEthers
      ''did:ethr:sepolia:0x0000000000000000000000000000000000000002'' accentedName ''v''
      aliceManaged
      = (Inl (Thrown ''bytes32 string must be less than 32 bytes''), aliceManaged)"
    using extract_alice owner_of_alice lower_admin n format_accentedName
    by (rule addAttributeTry_rejected_by_library)
  have r: "addAttribute memoryEthers
      ''did:ethr:sepolia:0x0000000000000000000000000000000000000002'' accentedName ''v''
      aliceManaged
      = (Inl (AddAttributeFailed (Thrown ''bytes32 string must be less than 32 bytes'')),
         aliceManaged)"
    unfolding addAttribute_unfold [OF ensure_aliceManaged] t by simp
  show ?thesis
    using n ensure_aliceManaged extract_alice owner_of_alice a utf8_accentedName r
    by (intro conjI)
qed

theorem C5_long_name_witness:
  "length longName > 31
   \<and> ensureAdminRegistered memoryEthers aliceManaged = (Inr (), aliceManaged)
   \<and> extractIdentity (isAddress memoryEthers)
        ''did:ethr:sepolia:0x0000000000000000000000000000000000000002'' = Inr (address alice)
   \<and> identityOwner memoryEthers (world aliceManaged) (address alice) = Inr (address admin)
   \<and> toLowerCase (address admin) = toLowerCase (address (adminWallet memoryEthers))
   \<and> fst (addAttribute memoryEthers ''did:ethr:sepolia:0x0000000000000000000000000000000000000002''
        longName ''v'' aliceManaged)
       = Inl (AddAttributeFailed (AttributeNameTooLong longName))
   \<and> snd (addAttribute memoryEthers ''did:ethr:sepolia:0x0000000000000000000000000000000000000002''
        longName ''v'' aliceManaged)
       = aliceManaged
   \<and> submitted aliceManaged = []"
proof -
  note c = C5_long_name [of longName memoryEthers
      "''did:ethr:sepolia:0x0000000000000000000000000000000000000002''" "''v''" aliceManaged
      aliceManaged "address alice" "address admin", THEN mp, OF length_longName]
  have p: "ensureAdminRegistered memoryEthers aliceManaged = (Inr (), aliceManaged)
         \<and> extractIdentity (isAddress memoryEthers)
              ''did:ethr:sepolia:0x0000000000000000000000000000000000000002'' = Inr (address alice)
         \<and> identityOwner memoryEthers (world aliceManaged) (address alice) = Inr (address admin)
         \<and> toLowerCase (address admin) = toLowerCase (address (adminWallet memoryEthers))"
    using ensure_aliceManaged extract_alice owner_of_alice lower_admin by (intro conjI)
  have 1: "fst (addAttribute memoryEthers
      ''did:ethr:sepolia:0x0000000000000000000000000000000000000002'' longName ''v'' aliceManaged)
      = Inl (AddAttributeFailed (AttributeNameTooLong longName))"
    using c [THEN conjunct2, THEN conjunct2, THEN conjunct2, THEN mp, OF p] .
  have "snd (addAttribute memoryEthers
      ''did:ethr:sepolia:0x0000000000000000000000000000000000000002'' longName ''v'' aliceManaged)
      = snd (ensureAdminRegistered memoryEthers aliceManaged)"
    using c [THEN conjunct2, THEN conjunct1] .
  then have 2: "snd (addAttribute memoryEthers
      ''did:ethr:sepolia:0x0000000000000000000000000000000000000002'' longName ''v'' aliceManaged)
      = aliceManaged"
    by (simp only: ensure_aliceManaged snd_conv)
  have 3: "submitted aliceManaged = []" by (simp add: aliceManaged_def)
  show ?thesis
    using length_longName ensure_aliceManaged extract_alice owner_of_alice lower_admin 1 2 3
    by (intro conjI)
qed

lemma ensure_emptyRegistry:
  "ensureAdminRegistered memoryEthers emptyRegistry
     = (Inr (), \<lparr>world = \<lparr>owners = [(address admin, address admin)], pendingTx = None\<rparr>,
                 submitted = [\<lparr>signer = address admin,
                   invoked = changeOwner (address admin) (address admin), gasLimit = None\<rparr>]\<rparr>)"
  by (simp add: ensureAdminRegistered_def memory_simps emptyRegistry_def)

text \<open>
  Claim C5 as stated fails twice. On a chain that reports the zero address as the owner
  of the admin identity, the call with a name of 32 characters rejects the name only
  after it has submitted the \<open>changeOwner\<close> of the bootstrap check. And for an identity
  the admin wallet does not own, the error thrown for the same name is the authorization
  error, which is checked before the length.
\<close>

theorem C5_counterexample:
  "length longName > 31
   \<and> submitted emptyRegistry = []
   \<and> addAttribute memoryEthers ''did:ethr:sepolia:0x0000000000000000000000000000000000000001''
        longName ''v'' emptyRegistry
       = (Inl (AddAttributeFailed (AttributeNameTooLong longName)),
          \<lparr>world = \<lparr>owners = [(address admin, address admin)], pendingTx = None\<rparr>,
           submitted = [\<lparr>signer = address admin,
             invoked = changeOwner (address admin) (address admin), gasLimit = None\<rparr>]\<rparr>)
   \<and> addAttribute memoryEthers ''did:ethr:sepolia:0x0000000000000000000000000000000000000003''
        longName ''v'' aliceManaged
       = (Inl (AddAttributeFailed (NotOwner (address admin) (address bob) (address bob))),
          aliceManaged)"
proof -
  let ?s1 = "\<lparr>world = \<lparr>owners = [(address admin, address admin)], pendingTx = None\<rparr>,
           submitted = [\<lparr>signer = address admin,
             invoked = changeOwner (address admin) (address admin), gasLimit = None\<rparr>]\<rparr>"
  have 1: "submitted emptyRegistry = []" by (simp add: emptyRegistry_def)
  have o: "identityOwner memoryEthers (world ?s1) (address admin) = Inr (address admin)"
    by (simp add: memory_simps)
  have t: "addAttributeTry memoryEthers
      ''did:ethr:sepolia:0x0000000000000000000000000000000000000001'' longName ''v'' ?s1
      = (Inl (AttributeNameTooLong longName), ?s1)"
    using length_longName extract_admin o lower_admin by (rule addAttributeTry_tooLong_error)
  have 2: "addAttribute memoryEthers ''did:ethr:sepolia:0x0000000000000000000000000000000000000001''
        longName ''v'' emptyRegistry
       = (Inl (AddAttributeFailed (AttributeNameTooLong longName)), ?s1)"
    unfolding addAttribute_unfold [OF ensure_emptyRegistry] t by simp
  have t3: "addAttributeTry memoryEthers
      ''did:ethr:sepolia:0x0000000000000000000000000000000000000003'' longName ''v'' aliceManaged
      = (Inl (NotOwner (address (adminWallet memoryEthers)) (address bob) (address bob)),
         aliceManaged)"
    using extract_bob owner_of_bob lower_bob_admin by (rule addAttributeTry_notOwner)
  have 3: "addAttribute memoryEthers ''did:ethr:sepolia:0x0000000000000000000000000000000000000003''
        longName ''v'' aliceManaged
       = (Inl (AddAttributeFailed (NotOwner (address admin) (address bob) (address bob))),
          aliceManaged)"
    unfolding addAttribute_unfold [OF ensure_aliceManaged] t3 adminWallet_memory by simp
  show ?thesis using length_longName 1 2 3 by (intro conjI)
qed

lemma deleteDidTry_Inr:
  assumes "deleteDidTry E did s1 = (Inr result, s2)"
  shows "\<exists>identity tx w2 receipt w3.
      extractIdentity (isAddress E) did = Inr identity
      \<and> send E (world s1)
           \<lparr>signer = address (adminWallet E), invoked = changeOwner identity AddressZero,
            gasLimit = Some 200000\<rparr> = (Inr tx, w2)
      \<and> wait E w2 tx = (Inr receipt, w3)
      \<and> s2 = \<lparr>world = w3,
               submitted = submitted s1 @
                 [\<lparr>signer = address (adminWallet E), invoked = changeOwner identity AddressZero,
                   gasLimit = Some 200000\<rparr>]\<rparr>
      \<and> result = \<lparr>did' = did, transactionHash' = receipt, success' = True\<rparr>"
proof -
  from assms obtain identity where x: "extractIdentity (isAddress E) did = Inr identity"
    by (cases "extractIdentity (isAddress E) did") (auto simp: deleteDidTry_def)
  let ?t = "\<lparr>signer = address (adminWallet E), invoked = changeOwner identity AddressZero,
             gasLimit = Some 200000\<rparr>"
  obtain r sa where st: "sendTransaction E ?t s1 = (r, sa)" by (cases "sendTransaction E ?t s1")
  from assms x st obtain tx where r: "r = Inr tx"
    by (cases r) (auto simp: deleteDidTry_def)
  obtain r2 sb where w: "waitMined E tx sa = (r2, sb)" by (cases "waitMined E tx sa")
  from assms x st r w obtain receipt where r2: "r2 = Inr receipt"
    by (cases r2) (auto simp: deleteDidTry_def)
  from assms x st r w r2 have fin: "s2 = sb"
    and res: "result = \<lparr>did' = did, transactionHash' = receipt, success' = True\<rparr>"
    by (simp_all add: deleteDidTry_def)
  from st r obtain w2 where a: "send E (world s1) ?t = (Inr tx, w2)"
      and sa: "sa = \<lparr>world = w2, submitted = submitted s1 @ [?t]\<rparr>"
    using sendTransaction_Inr [of E ?t s1 tx sa] by auto
  from w r2 obtain w3 where b: "wait E (world sa) tx = (Inr receipt, w3)" and sb: "sb = sa\<lparr>world := w3\<rparr>"
    using waitMined_Inr [of E tx sa receipt sb] by auto
  from sa sb fin have "s2 = \<lparr>world = w3, submitted = submitted s1 @ [?t]\<rparr>" by simp
  moreover from b sa have "wait E w2 tx = (Inr receipt, w3)" by simp
  ultimately show ?thesis using x a res by blast
qed

lemma deleteDid_Inr:
  assumes "fst (deleteDid E did s) = Inr result"
  shows "\<exists>s1. ensureAdminRegistered E s = (Inr (), s1)
           \<and> deleteDidTry E did s1 = (Inr result, snd (deleteDid E did s))"
proof -
  obtain r s1 where e: "ensureAdminRegistered E s = (r, s1)"
    by (cases "ensureAdminRegistered E s")
  obtain r2 s2 where t: "deleteDidTry E did s1 = (r2, s2)" by (cases "deleteDidTry E did s1")
  from assms e have r: "r = Inr ()"
    by (cases r) (simp_all add: deleteDid_def)
  from assms e r t have "r2 = Inr result" "snd (deleteDid E did s) = s2"
    by (cases r2; simp add: deleteDid_def)+
  with e r t show ?thesis by simp
qed

text \<open>
  Claim C6. When \<open>deleteDid\<close> returns, the bootstrap check has succeeded, the DID has
  given an address, and the last transaction submitted is \<open>changeOwner(identity,
  AddressZero)\<close> signed by the admin wallet with gas limit 200000; it was sent, and the
  chain \<open>deleteDid\<close> leaves is the one in which \<open>tx.wait()\<close> returned its receipt, whose
  hash is the \<open>transactionHash\<close> returned. Hence, for every way \<open>ownerOf\<close> of reading
  owners off the chain such that a mined \<open>changeOwner(a, b)\<close> makes \<open>b\<close> the owner of
  \<open>a\<close>, the owner of the identity is the zero address after \<open>deleteDid\<close> has returned.
\<close>

theorem C6_deleteDid:
  "(fst (deleteDid E did s) = Inr result \<longrightarrow>
      (\<exists>identity s1 tx w2.
         ensureAdminRegistered E s = (Inr (), s1)
         \<and> extractIdentity (isAddress E) did = Inr identity
         \<and> send E (world s1)
              \<lparr>signer = address (adminWallet E), invoked = changeOwner identity AddressZero,
               gasLimit = Some 200000\<rparr> = (Inr tx, w2)
         \<and> wait E w2 tx = (Inr (transactionHash' result), world (snd (deleteDid E did s)))
         \<and> submitted (snd (deleteDid E did s))
             = submitted s1 @
                 [\<lparr>signer = address (adminWallet E), invoked = changeOwner identity AddressZero,
                   gasLimit = Some 200000\<rparr>]
         \<and> result = \<lparr>did' = did, transactionHash' = transactionHash' result, success' = True\<rparr>))
   \<and> ((\<forall>w t tx w' receipt w'' a b.
          invoked t = changeOwner a b \<and> send E w t = (Inr tx, w')
          \<and> wait E w' tx = (Inr receipt, w'') \<longrightarrow> ownerOf w'' a = b)
       \<and> fst (deleteDid E did s) = Inr result \<longrightarrow>
       (\<exists>identity. extractIdentity (isAddress E) did = Inr identity
          \<and> ownerOf (world (snd (deleteDid E did s))) identity = AddressZero))"
proof -
  have main: "\<exists>identity s1 tx w2.
         ensureAdminRegistered E s = (Inr (), s1)
         \<and> extractIdentity (isAddress E) did = Inr identity
         \<and> send E (world s1)
              \<lparr>signer = address (adminWallet E), invoked = changeOwner identity AddressZero,
               gasLimit = Some 200000\<rparr> = (Inr tx, w2)
         \<and> wait E w2 tx = (Inr (transactionHash' result), world (snd (deleteDid E did s)))
         \<and> submitted (snd (deleteDid E did s))
             = submitted s1 @
                 [\<lparr>signer = address (adminWallet E), invoked = changeOwner identity AddressZero,
                   gasLimit = Some 200000\<rparr>]
         \<and> result = \<lparr>did' = did, transactionHash' = transactionHash' result, success' = True\<rparr>"
    if ok: "fst (deleteDid E did s) = Inr result"
  proof -
    from deleteDid_Inr [OF ok] obtain s1 where e: "ensureAdminRegistered E s = (Inr (), s1)"
      and t: "deleteDidTry E did s1 = (Inr result, snd (deleteDid E did s))" by blast
    from deleteDidTry_Inr [OF t] obtain identity tx w2 receipt w3 where
      x: "extractIdentity (isAddress E) did = Inr identity"
      and a: "send E (world s1)
           \<lparr>signer = address (adminWallet E), invoked = changeOwner identity AddressZero,
            gasLimit = Some 200000\<rparr> = (Inr tx, w2)"
      and b: "wait E w2 tx = (Inr receipt, w3)"
      and fin: "snd (deleteDid E did s) = \<lparr>world = w3,
               submitted = submitted s1 @
                 [\<lparr>signer = address (adminWallet E), invoked = changeOwner identity AddressZero,
                   gasLimit = Some 200000\<rparr>]\<rparr>"
      and res: "result = \<lparr>did' = did, transactionHash' = receipt, success' = True\<rparr>"
      by blast
    from res have h: "transactionHash' result = receipt" by simp
    from fin have w3: "world (snd (deleteDid E did s)) = w3"
      and sub: "submitted (snd (deleteDid E did s)) = submitted s1 @
                 [\<lparr>signer = address (adminWallet E), invoked = changeOwner identity AddressZero,
                   gasLimit = Some 200000\<rparr>]"
      by simp_all
    from b h w3 have b': "wait E w2 tx
        = (Inr (transactionHash' result), world (snd (deleteDid E did s)))" by simp
    from res h have res': "result
        = \<lparr>did' = did, transactionHash' = transactionHash' result, success' = True\<rparr>" by simp
    from e x a b' sub res' show ?thesis by blast
  qed
  have owner: "\<exists>identity. extractIdentity (isAddress E) did = Inr identity
          \<and> ownerOf (world (snd (deleteDid E did s))) identity = AddressZero"
    if reg: "\<forall>w t tx w' receipt w'' a b.
          invoked t = changeOwner a b \<and> send E w t = (Inr tx, w')
          \<and> wait E w' tx = (Inr receipt, w'') \<longrightarrow> ownerOf w'' a = b"
      and ok: "fst (deleteDid E did s) = Inr result"
  proof -
    from main [OF ok] obtain identity s1 tx w2 where
      e: "ensureAdminRegistered E s = (Inr (), s1)"
      and x: "extractIdentity (isAddress E) did = Inr identity"
      and a: "send E (world s1)
           \<lparr>signer = address (adminWallet E), invoked = changeOwner identity AddressZero,
            gasLimit = Some 200000\<rparr> = (Inr tx, w2)"
      and b: "wait E w2 tx = (Inr (transactionHash' result), world (snd (deleteDid E did s)))"
      by blast
    have "invoked \<lparr>signer = address (adminWallet E), invoked = changeOwner identity AddressZero,
            gasLimit = Some 200000\<rparr> = changeOwner identity AddressZero" by simp
    with reg a b have "ownerOf (world (snd (deleteDid E did s))) identity = AddressZero"
      by blast
    with x show ?thesis by blast
  qed
  show ?thesis using main owner by blast
qed

lemma memory_changeOwner_mined:
  assumes "invoked t = changeOwner a b"
    and "send memoryEthers w t = (Inr tx, w')"
    and "wait memoryEthers w' tx = (Inr receipt, w'')"
  shows "recordedOwner w'' a = b"
proof -
  from assms(2) have w': "w' = w\<lparr>pendingTx := Some t\<rparr>"
    by (simp add: memoryEthers_def memorySend_def)
  from assms(3) w' have "memoryWait (w\<lparr>pendingTx := Some t\<rparr>) tx = (Inr receipt, w'')"
    by (simp add: memoryEthers_def)
  then have "w'' = w\<lparr>owners := (a, b) # owners w, pendingTx := None\<rparr>"
    using assms(1)
    by (auto simp: memoryWait_def mine_def split: option.splits if_splits)
  then show ?thesis by (simp add: recordedOwner_def)
qed

lemma deleteDid_alice:
  "deleteDid memoryEthers ''did:ethr:sepolia:0x0000000000000000000000000000000000000002''
     aliceManaged
   = (Inr \<lparr>did' = ''did:ethr:sepolia:0x0000000000000000000000000000000000000002'',
           transactionHash' = ''0xf00d'', success' = True\<rparr>,
      \<lparr>world = \<lparr>owners = [(address alice, AddressZero), (address alice, address admin),
                           (address bob, address bob), (address admin, address admin)],
                pendingTx = None\<rparr>,
       submitted = [\<lparr>signer = address admin, invoked = changeOwner (address alice) AddressZero,
                     gasLimit = Some 200000\<rparr>]\<rparr>)"
proof -
  have "deleteDidTry memoryEthers ''did:ethr:sepolia:0x0000000000000000000000000000000000000002''
     aliceManaged
   = (Inr \<lparr>did' = ''did:ethr:sepolia:0x0000000000000000000000000000000000000002'',
           transactionHash' = ''0xf00d'', success' = True\<rparr>,
      \<lparr>world = \<lparr>owners = [(address alice, AddressZero), (address alice, address admin),
                           (address bob, address bob), (address admin, address admin)],
                pendingTx = None\<rparr>,
       submitted = [\<lparr>signer = address admin, invoked = changeOwner (address alice) AddressZero,
                     gasLimit = Some 200000\<rparr>]\<rparr>)"
    by (simp add: deleteDidTry_def extract_alice)
       (simp add: memory_simps aliceManaged_def)
  then show ?thesis
    by (simp add: deleteDid_def ensure_aliceManaged)
qed

theorem C6_deleteDid_witness:
  "fst (deleteDid memoryEthers ''did:ethr:sepolia:0x0000000000000000000000000000000000000002''
          aliceManaged)
     = Inr \<lparr>did' = ''did:ethr:sepolia:0x0000000000000000000000000000000000000002'',
            transactionHash' = ''0xf00d'', success' = True\<rparr>
   \<and> identityOwner memoryEthers (world aliceManaged) (address alice) = Inr (address admin)
   \<and> extractIdentity (isAddress memoryEthers)
        ''did:ethr:sepolia:0x0000000000000000000000000000000000000002'' = Inr (address alice)
   \<and> recordedOwner (world (snd (deleteDid memoryEthers
        ''did:ethr:sepolia:0x0000000000000000000000000000000000000002'' aliceManaged)))
        (address alice) = AddressZero
   \<and> submitted (snd (deleteDid memoryEthers
        ''did:ethr:sepolia:0x0000000000000000000000000000000000000002'' aliceManaged))
       = [\<lparr>signer = address admin, invoked = changeOwner (address alice) AddressZero,
           gasLimit = Some 200000\<rparr>]"
proof -
  let ?did = "''did:ethr:sepolia:0x0000000000000000000000000000000000000002''"
  let ?res = "\<lparr>did' = ?did, transactionHash' = ''0xf00d'', success' = True\<rparr>"
  have ok: "fst (deleteDid memoryEthers ?did aliceManaged) = Inr ?res"
    by (simp only: deleteDid_alice fst_conv)
  have reg: "\<forall>w t tx w' receipt w'' a b.
          invoked t = changeOwner a b \<and> send memoryEthers w t = (Inr tx, w')
          \<and> wait memoryEthers w' tx = (Inr receipt, w'') \<longrightarrow> recordedOwner w'' a = b"
    using memory_changeOwner_mined by blast
  have "\<exists>identity. extractIdentity (isAddress memoryEthers) ?did = Inr identity
          \<and> recordedOwner (world (snd (deleteDid memoryEthers ?did aliceManaged))) identity
              = AddressZero"
    using C6_deleteDid [of memoryEthers ?did aliceManaged ?res recordedOwner,
        THEN conjunct2, THEN mp, OF conjI [OF reg ok]] .
  then have 1: "recordedOwner (world (snd (deleteDid memoryEthers ?did aliceManaged)))
      (address alice) = AddressZero"
    by (simp add: extract_alice)
  have 2: "submitted (snd (deleteDid memoryEthers ?did aliceManaged))
       = [\<lparr>signer = address admin, invoked = changeOwner (address alice) AddressZero,
           gasLimit = Some 200000\<rparr>]"
    by (simp only: deleteDid_alice snd_conv) simp
  show ?thesis using ok owner_of_alice extract_alice 1 2 by (intro conjI)
qed

end
